theory Spec2Isabelle
  imports Complex_Main "HOL-Library.Word" "HOL-Library.Sublist"
begin

section \<open>JavaScript values used by the program\<close>

subsection \<open>Strings\<close>

text \<open>
  A JavaScript string is a sequence of 16-bit code units. String literals of the
  source are ASCII unless stated otherwise, so they are written as HOL literals
  and injected with \<open>js\<close>; other code units are written as numbers.
\<close>

type_synonym jschar = "16 word"
type_synonym jsstring = "jschar list"

definition ch :: "char \<Rightarrow> jschar" where
  "ch c = of_nat (of_char c)"

definition js :: "string \<Rightarrow> jsstring" where
  "js s = map ch s"

text \<open>
  \<open>!s\<close> for a value that is a string or \<open>undefined\<close>: true when the value is
  \<open>undefined\<close> or the empty string.
\<close>

definition truthy :: "jsstring option \<Rightarrow> bool" where
  "truthy v = (case v of None \<Rightarrow> False | Some s \<Rightarrow> s \<noteq> [])"

text \<open>
  The code units that \<open>String.prototype.trim\<close> strips and that \<open>\s\<close> matches in a
  regular expression: WhiteSpace and LineTerminator of ECMAScript.
\<close>

definition isWhiteSpace :: "jschar \<Rightarrow> bool" where
  "isWhiteSpace c \<longleftrightarrow>
     c = 0x09 \<or> c = 0x0A \<or> c = 0x0B \<or> c = 0x0C \<or> c = 0x0D \<or> c = 0x20 \<or>
     c = 0xA0 \<or> c = 0x1680 \<or> (0x2000 \<le> c \<and> c \<le> 0x200A) \<or>
     c = 0x2028 \<or> c = 0x2029 \<or> c = 0x202F \<or> c = 0x205F \<or> c = 0x3000 \<or> c = 0xFEFF"

definition trim :: "jsstring \<Rightarrow> jsstring" where
  "trim s = rev (dropWhile isWhiteSpace (rev (dropWhile isWhiteSpace s)))"

text \<open>\<open>s.split(sep)\<close> for a separator of one code unit.\<close>

fun split :: "jschar \<Rightarrow> jsstring \<Rightarrow> jsstring list" where
  "split sep [] = [] # []"
| "split sep (c # cs) =
     (if c = sep then [] # split sep cs
      else (case split sep cs of [] \<Rightarrow> [c] # [] | w # ws \<Rightarrow> (c # w) # ws))"

text \<open>\<open>xs[i]\<close>: \<open>undefined\<close> out of range.\<close>

fun elementAt :: "'a list \<Rightarrow> nat \<Rightarrow> 'a option" where
  "elementAt [] i = None"
| "elementAt (x # xs) 0 = Some x"
| "elementAt (x # xs) (Suc i) = elementAt xs i"

subsection \<open>Thrown values\<close>

text \<open>
  What the program can throw or receive as a rejection: an \<open>Error\<close> with its
  message, the \<open>SyntaxError\<close> of \<open>JSON.parse\<close>, and the event a \<open>FileReader\<close>
  passes to \<open>onerror\<close>.
\<close>

datatype exn = Error jsstring | SyntaxError | ProgressEvent

text \<open>
  \<open>err.message\<close>: an event has none. The wording of a \<open>SyntaxError\<close> is the
  engine's own; here it is the name of the error (both operations of the service
  replace a \<open>SyntaxError\<close> before it leaves them, so no handler reads it).
\<close>

fun message :: "exn \<Rightarrow> jsstring option" where
  "message (Error m) = Some m"
| "message SyntaxError = Some (js ''SyntaxError'')"
| "message ProgressEvent = None"

subsection \<open>JSON values and \<open>JSON.parse\<close>\<close>

text \<open>
  The values \<open>JSON.parse\<close> can return. A number is kept as the text that denotes
  it. An object is the list of its properties in insertion order, each name once.
\<close>

datatype json =
    JNull
  | JBoolean bool
  | JNumber jsstring
  | JString jsstring
  | JArray "json list"
  | JObject "(jsstring \<times> json) list"

text \<open>Defining a property: a repeated name keeps its place and takes the new value.\<close>

fun setProperty :: "jsstring \<Rightarrow> json \<Rightarrow> (jsstring \<times> json) list \<Rightarrow> (jsstring \<times> json) list" where
  "setProperty k v [] = [(k, v)]"
| "setProperty k v ((k', v') # kvs) =
     (if k' = k then (k, v) # kvs else (k', v') # setProperty k v kvs)"

text \<open>Reading a property of a parsed value: \<open>undefined\<close> when it has none of that name.\<close>

fun getProperty :: "json \<Rightarrow> jsstring \<Rightarrow> json option" where
  "getProperty (JObject kvs) k = map_of kvs k"
| "getProperty _ k = None"

datatype token =
    LBrace | RBrace | LBracket | RBracket | Colon | Comma
  | TString jsstring | TNumber jsstring | TWord jsstring

datatype lexmode =
    Between
  | InString jsstring
  | InEscape jsstring
  | InUnicode jsstring "nat list"
  | InNumber jsstring
  | InWord jsstring

definition isJsonWs :: "jschar \<Rightarrow> bool" where
  "isJsonWs c \<longleftrightarrow> c = 0x20 \<or> c = 0x09 \<or> c = 0x0A \<or> c = 0x0D"

definition isDigit :: "jschar \<Rightarrow> bool" where
  "isDigit c \<longleftrightarrow> 0x30 \<le> c \<and> c \<le> 0x39"

definition isNumberChar :: "jschar \<Rightarrow> bool" where
  "isNumberChar c \<longleftrightarrow>
     isDigit c \<or> c = ch CHR ''-'' \<or> c = ch CHR ''+'' \<or> c = ch CHR ''.'' \<or>
     c = ch CHR ''e'' \<or> c = ch CHR ''E''"

definition isLower :: "jschar \<Rightarrow> bool" where
  "isLower c \<longleftrightarrow> 0x61 \<le> c \<and> c \<le> 0x7A"

definition hexValue :: "jschar \<Rightarrow> nat option" where
  "hexValue c =
     (if 0x30 \<le> c \<and> c \<le> 0x39 then Some (unat c - 0x30)
      else if 0x41 \<le> c \<and> c \<le> 0x46 then Some (unat c - 0x41 + 10)
      else if 0x61 \<le> c \<and> c \<le> 0x66 then Some (unat c - 0x61 + 10)
      else None)"

definition unescape :: "jschar \<Rightarrow> jschar option" where
  "unescape c =
     (if c = 0x22 then Some 0x22
      else if c = 0x5C then Some 0x5C
      else if c = 0x2F then Some 0x2F
      else if c = ch CHR ''b'' then Some 0x08
      else if c = ch CHR ''f'' then Some 0x0C
      else if c = ch CHR ''n'' then Some 0x0A
      else if c = ch CHR ''r'' then Some 0x0D
      else if c = ch CHR ''t'' then Some 0x09
      else None)"

text \<open>
  The grammar of a JSON number,
  \<open>-? (0 | [1-9][0-9]*) (. [0-9]+)? ([eE] [+-]? [0-9]+)?\<close>, as an automaton:
  the state is the position in that expression.
\<close>

datatype numstate =
  NStart | NMinus | NZero | NInt | NDot | NFrac | NExp | NExpSign | NExpDigits

definition numStep :: "numstate \<Rightarrow> jschar \<Rightarrow> numstate option" where
  "numStep s c =
     (case s of
        NStart \<Rightarrow>
          (if c = ch CHR ''-'' then Some NMinus
           else if c = 0x30 then Some NZero
           else if isDigit c then Some NInt else None)
      | NMinus \<Rightarrow>
          (if c = 0x30 then Some NZero else if isDigit c then Some NInt else None)
      | NZero \<Rightarrow>
          (if c = ch CHR ''.'' then Some NDot
           else if c = ch CHR ''e'' \<or> c = ch CHR ''E'' then Some NExp else None)
      | NInt \<Rightarrow>
          (if isDigit c then Some NInt
           else if c = ch CHR ''.'' then Some NDot
           else if c = ch CHR ''e'' \<or> c = ch CHR ''E'' then Some NExp else None)
      | NDot \<Rightarrow> (if isDigit c then Some NFrac else None)
      | NFrac \<Rightarrow>
          (if isDigit c then Some NFrac
           else if c = ch CHR ''e'' \<or> c = ch CHR ''E'' then Some NExp else None)
      | NExp \<Rightarrow>
          (if c = ch CHR ''+'' \<or> c = ch CHR ''-'' then Some NExpSign
           else if isDigit c then Some NExpDigits else None)
      | NExpSign \<Rightarrow> (if isDigit c then Some NExpDigits else None)
      | NExpDigits \<Rightarrow> (if isDigit c then Some NExpDigits else None))"

fun numRun :: "numstate \<Rightarrow> jsstring \<Rightarrow> numstate option" where
  "numRun s [] = Some s"
| "numRun s (c # cs) = (case numStep s c of None \<Rightarrow> None | Some s' \<Rightarrow> numRun s' cs)"

definition isJsonNumber :: "jsstring \<Rightarrow> bool" where
  "isJsonNumber n \<longleftrightarrow>
     (case numRun NStart n of
        Some s \<Rightarrow> s = NZero \<or> s = NInt \<or> s = NFrac \<or> s = NExpDigits
      | None \<Rightarrow> False)"

text \<open>
  Closing the token that is being read when a code unit that cannot continue it
  arrives (or the text ends). The accumulators hold the code units in reverse.
\<close>

definition closeToken :: "lexmode \<Rightarrow> token list option" where
  "closeToken m =
     (case m of
        Between \<Rightarrow> Some []
      | InNumber n \<Rightarrow> (if isJsonNumber (rev n) then Some [TNumber (rev n)] else None)
      | InWord w \<Rightarrow>
          (if rev w = js ''true'' \<or> rev w = js ''false'' \<or> rev w = js ''null''
           then Some [TWord (rev w)] else None)
      | _ \<Rightarrow> None)"

text \<open>A code unit met outside a string, with no token open.\<close>

definition openToken :: "jschar \<Rightarrow> (lexmode \<times> token list) option" where
  "openToken c =
     (if isJsonWs c then Some (Between, [])
      else if c = ch CHR ''{'' then Some (Between, [LBrace])
      else if c = ch CHR ''}'' then Some (Between, [RBrace])
      else if c = ch CHR ''['' then Some (Between, [LBracket])
      else if c = ch CHR '']'' then Some (Between, [RBracket])
      else if c = ch CHR '':'' then Some (Between, [Colon])
      else if c = ch CHR '','' then Some (Between, [Comma])
      else if c = 0x22 then Some (InString [], [])
      else if isDigit c \<or> c = ch CHR ''-'' then Some (InNumber [c], [])
      else if isLower c then Some (InWord [c], [])
      else None)"

text \<open>The tokens of a text, read one code unit at a time; \<open>acc\<close> is reversed.\<close>

fun lex :: "lexmode \<Rightarrow> token list \<Rightarrow> jsstring \<Rightarrow> token list option" where
  "lex m acc [] =
     (case closeToken m of None \<Rightarrow> None | Some ts \<Rightarrow> Some (rev (ts @ acc)))"
| "lex (InString s) acc (c # cs) =
     (if c = 0x22 then lex Between (TString (rev s) # acc) cs
      else if c = 0x5C then lex (InEscape s) acc cs
      else if c < 0x20 then None
      else lex (InString (c # s)) acc cs)"
| "lex (InEscape s) acc (c # cs) =
     (if c = ch CHR ''u'' then lex (InUnicode s []) acc cs
      else (case unescape c of
              None \<Rightarrow> None
            | Some d \<Rightarrow> lex (InString (d # s)) acc cs))"
| "lex (InUnicode s hs) acc (c # cs) =
     (case hexValue c of
        None \<Rightarrow> None
      | Some h \<Rightarrow>
          (if length hs = 3
           then lex (InString (of_nat (foldl (\<lambda>a d. 16 * a + d) 0 (hs @ [h])) # s)) acc cs
           else lex (InUnicode s (hs @ [h])) acc cs))"
| "lex (InNumber n) acc (c # cs) =
     (if isNumberChar c then lex (InNumber (c # n)) acc cs
      else (case closeToken (InNumber n) of
              None \<Rightarrow> None
            | Some ts \<Rightarrow>
                (case openToken c of
                   None \<Rightarrow> None
                 | Some (m', ts') \<Rightarrow> lex m' (ts' @ ts @ acc) cs)))"
| "lex (InWord w) acc (c # cs) =
     (if isLower c then lex (InWord (c # w)) acc cs
      else (case closeToken (InWord w) of
              None \<Rightarrow> None
            | Some ts \<Rightarrow>
                (case openToken c of
                   None \<Rightarrow> None
                 | Some (m', ts') \<Rightarrow> lex m' (ts' @ ts @ acc) cs)))"
| "lex Between acc (c # cs) =
     (case openToken c of
        None \<Rightarrow> None
      | Some (m', ts') \<Rightarrow> lex m' (ts' @ acc) cs)"

text \<open>
  The parser reads the tokens left to right with a stack of the arrays and objects
  that are still open. \<open>FArray xs\<close>: an array with the elements \<open>xs\<close> read so far
  (reversed); \<open>FObject kvs\<close>: an object between members; \<open>FMember kvs k\<close>: an
  object whose member \<open>k\<close> waits for its value.
\<close>

datatype frame =
    FArray "json list"
  | FObject "(jsstring \<times> json) list"
  | FMember "(jsstring \<times> json) list" jsstring

datatype pstate =
    ExpValue "frame list"
  | ExpValueOrEnd "frame list"
  | ExpKeyOrEnd "frame list"
  | ExpKey "frame list"
  | ExpColon "frame list" jsstring
  | ExpSep "frame list"
  | Done json

text \<open>A value is complete: it goes to the innermost open container.\<close>

fun deliver :: "json \<Rightarrow> frame list \<Rightarrow> pstate option" where
  "deliver v [] = Some (Done v)"
| "deliver v (FArray xs # st) = Some (ExpSep (FArray (v # xs) # st))"
| "deliver v (FMember kvs k # st) = Some (ExpSep (FObject (setProperty k v kvs) # st))"
| "deliver v (FObject kvs # st) = None"

definition startValue :: "frame list \<Rightarrow> token \<Rightarrow> pstate option" where
  "startValue st t =
     (case t of
        LBrace \<Rightarrow> Some (ExpKeyOrEnd (FObject [] # st))
      | LBracket \<Rightarrow> Some (ExpValueOrEnd (FArray [] # st))
      | TString s \<Rightarrow> deliver (JString s) st
      | TNumber n \<Rightarrow> deliver (JNumber n) st
      | TWord w \<Rightarrow>
          (if w = js ''true'' then deliver (JBoolean True) st
           else if w = js ''false'' then deliver (JBoolean False) st
           else if w = js ''null'' then deliver JNull st
           else None)
      | _ \<Rightarrow> None)"

definition closeArray :: "frame list \<Rightarrow> pstate option" where
  "closeArray st =
     (case st of FArray xs # st' \<Rightarrow> deliver (JArray (rev xs)) st' | _ \<Rightarrow> None)"

definition closeObject :: "frame list \<Rightarrow> pstate option" where
  "closeObject st =
     (case st of FObject kvs # st' \<Rightarrow> deliver (JObject kvs) st' | _ \<Rightarrow> None)"

fun pstep :: "pstate \<Rightarrow> token \<Rightarrow> pstate option" where
  "pstep (ExpValue st) t = startValue st t"
| "pstep (ExpValueOrEnd st) t = (if t = RBracket then closeArray st else startValue st t)"
| "pstep (ExpKeyOrEnd st) t =
     (case t of RBrace \<Rightarrow> closeObject st | TString k \<Rightarrow> Some (ExpColon st k) | _ \<Rightarrow> None)"
| "pstep (ExpKey st) t = (case t of TString k \<Rightarrow> Some (ExpColon st k) | _ \<Rightarrow> None)"
| "pstep (ExpColon st k) t =
     (case (t, st) of
        (Colon, FObject kvs # st') \<Rightarrow> Some (ExpValue (FMember kvs k # st'))
      | _ \<Rightarrow> None)"
| "pstep (ExpSep st) t =
     (case (t, st) of
        (Comma, FArray xs # st') \<Rightarrow> Some (ExpValue st)
      | (Comma, FObject kvs # st') \<Rightarrow> Some (ExpKey st)
      | (RBracket, _) \<Rightarrow> closeArray st
      | (RBrace, _) \<Rightarrow> closeObject st
      | _ \<Rightarrow> None)"
| "pstep (Done v) t = None"

fun prun :: "pstate \<Rightarrow> token list \<Rightarrow> json option" where
  "prun s [] = (case s of Done v \<Rightarrow> Some v | _ \<Rightarrow> None)"
| "prun s (t # ts) = (case pstep s t of None \<Rightarrow> None | Some s' \<Rightarrow> prun s' ts)"

text \<open>\<open>JSON.parse(text)\<close>; \<open>None\<close> stands for the \<open>SyntaxError\<close> it throws.\<close>

definition JSON_parse :: "jsstring \<Rightarrow> json option" where
  "JSON_parse text = (case lex Between [] text of None \<Rightarrow> None | Some ts \<Rightarrow> prun (ExpValue []) ts)"

section \<open>The generation service\<close>

subsection \<open>Files, requests and responses\<close>

text \<open>
  A \<open>File\<close> as the service uses it: its declared media type, and what
  \<open>FileReader.readAsDataURL\<close> yields for it (\<open>None\<close> when the read fails and the
  reader fires \<open>onerror\<close>).
\<close>

record File =
  fileType :: jsstring
  dataURL :: "jsstring option"

text \<open>
  A content part, of a request or of a response: \<open>{ text }\<close> or
  \<open>{ inlineData: { data, mimeType } }\<close>. Every property may be missing.
\<close>

record blob =
  data :: "jsstring option"
  mimeType :: "jsstring option"

record part =
  partText :: "jsstring option"
  inlineData :: "blob option"

text \<open>
  The \<open>responseSchema\<close> of the content request, with the \<open>Type\<close> of each node as
  the constructor.
\<close>

datatype schema =
    TypeString "jsstring option"
  | TypeArray schema "jsstring option"
  | TypeObject "(jsstring \<times> schema) list" "jsstring list"

record generationConfig =
  responseMimeType :: "jsstring option"
  responseSchema :: "schema option"
  systemInstruction :: "jsstring option"

record generateContentParameters =
  model :: jsstring
  contents :: "part list"
  config :: generationConfig

text \<open>
  What the service reads of a response: the \<open>text\<close> accessor, and
  \<open>candidates[i].content.parts\<close>.
\<close>

record content =
  parts :: "part list option"

record candidate =
  candidateContent :: "content option"

record response =
  responseText :: "jsstring option"
  candidates :: "candidate list option"

text \<open>
  \<open>ai.models.generateContent\<close>: the remote service, which answers a request with
  a response or throws.
\<close>

type_synonym transport = "generateContentParameters \<Rightarrow> exn + response"

text \<open>\<open>process.env\<close>, as far as the service reads it.\<close>

record env =
  API_KEY :: "jsstring option"

text \<open>
  What a call of a service operation does: it returns a value or throws, it has
  sent these requests, and it has written these lines with \<open>console.error\<close>.
\<close>

record 'a outcome =
  returned :: "exn + 'a"
  sent :: "generateContentParameters list"
  console :: "(jsstring \<times> exn) list"

definition throw :: "exn \<Rightarrow> 'a outcome" where
  "throw e = \<lparr>returned = Inl e, sent = [], console = []\<rparr>"

subsection \<open>\<open>fileToGenerativePart\<close>\<close>

definition fileToGenerativePart :: "File \<Rightarrow> exn + part" where
  "fileToGenerativePart f =
     (case dataURL f of
        None \<Rightarrow> Inl ProgressEvent
      | Some base64Data \<Rightarrow>
          (let base64Content = elementAt (split (ch CHR '','') base64Data) 1
           in Inr \<lparr>partText = None,
                   inlineData = Some \<lparr>data = base64Content, mimeType = Some (fileType f)\<rparr>\<rparr>))"

text \<open>
  \<open>if (file) { parts.push(await fileToGenerativePart(file)) }\<close>: the parts pushed,
  or the rejection of the read.
\<close>

definition optionalImagePart :: "File option \<Rightarrow> exn + part list" where
  "optionalImagePart f =
     (case f of
        None \<Rightarrow> Inr []
      | Some file \<Rightarrow>
          (case fileToGenerativePart file of
             Inl e \<Rightarrow> Inl e
           | Inr imagePart \<Rightarrow> Inr [imagePart]))"

subsection \<open>\<open>generateProductContent\<close>\<close>

definition productSchema :: schema where
  "productSchema =
     TypeObject
       [(js ''productName'',
           TypeString (Some (js ''A professional, catchy, and clean name for the product.''))),
        (js ''shortDescription'',
           TypeString (Some (js ''A 2-3 sentence engaging description suitable for social media captions.''))),
        (js ''longDescription'',
           TypeString (Some (js ''A detailed paragraph highlighting features, benefits, and use cases.''))),
        (js ''suggestedPrice'',
           TypeString (Some (js ''A suggested price range in Nigerian Naira ('' @ [0x20A6] @
             js '') based on Jumia Nigeria market rates (e.g., '' @ [0x27, 0x20A6] @
             js ''15,000 - '' @ [0x20A6] @ js ''20,000'' @ [0x27] @ js '').''))),
        (js ''seoKeywords'',
           TypeArray (TypeString None) (Some (js ''Top 5-8 SEO keywords for search visibility.''))),
        (js ''hashtags'',
           TypeArray (TypeString None)
             (Some (js ''10-15 relevant and trending hashtags for Instagram/TikTok.''))),
        (js ''socialMediaPost'',
           TypeString (Some (js ''A ready-to-post caption for Instagram/Facebook including emojis and hook.''))),
        (js ''targetAudience'',
           TypeString (Some (js ''Brief description of who this product is for.'')))]
       [js ''productName'', js ''shortDescription'', js ''longDescription'',
        js ''suggestedPrice'', js ''seoKeywords'', js ''hashtags'',
        js ''socialMediaPost'', js ''targetAudience'']"

definition contentConfig :: generationConfig where
  "contentConfig =
     \<lparr>responseMimeType = Some (js ''application/json''),
      responseSchema = Some productSchema,
      systemInstruction = Some
        (js ''You are MerchantAI, a helpful assistant for Nigerian small business owners. Your tone is professional, enthusiastic, and sales-oriented. Always format currency in Nigerian Naira ('' @
         [0x20A6] @
         js ''). Use Jumia Nigeria pricing as a benchmark for accuracy. Focus on benefits relevant to the local market.'')\<rparr>"

text \<open>The prompt of the content request: the fixed text, then the user's text if any.\<close>

definition contentPrompt :: "jsstring \<Rightarrow> jsstring" where
  \<open>contentPrompt textInput =
     (let promptText = js ''You are an expert e-commerce copywriter and sales strategist for the Nigerian market. Analyze the input (image and/or text) and generate a high-converting product listing.''
      in if textInput \<noteq> []
         then promptText @ [0x0A, 0x0A] @ js ''User provided context: "'' @ textInput @
              js ''". Use this context to refine the description.''
         else promptText)\<close>

text \<open>
  The body of the \<open>try\<close> block, after the request has been built: the call, the
  test of \<open>response.text\<close>, and \<open>JSON.parse\<close>, whose result is returned under
  the type \<open>GeneratedProductContent\<close> without any check.
\<close>

definition contentAttempt :: "transport \<Rightarrow> generateContentParameters \<Rightarrow> exn + json" where
  "contentAttempt ai request =
     (case ai request of
        Inl e \<Rightarrow> Inl e
      | Inr response \<Rightarrow>
          (case responseText response of
             None \<Rightarrow> Inl (Error (js ''No response generated''))
           | Some text \<Rightarrow>
               (if text = [] then Inl (Error (js ''No response generated''))
                else (case JSON_parse text of
                        None \<Rightarrow> Inl SyntaxError
                      | Some v \<Rightarrow> Inr v))))"

definition generateProductContent ::
  "env \<Rightarrow> transport \<Rightarrow> File option \<Rightarrow> jsstring \<Rightarrow> json outcome" where
  "generateProductContent environment ai imageFile textInput =
     (if \<not> truthy (API_KEY environment)
      then throw (Error (js ''API Key is missing. Please check your environment variables.''))
      else
        (let promptText = contentPrompt textInput
         in if imageFile = None \<and> textInput = []
            then throw (Error (js ''Please provide an image or text description.''))
            else
              (case optionalImagePart imageFile of
                 Inl e \<Rightarrow> throw e
               | Inr imageParts \<Rightarrow>
                   (let request =
                          \<lparr>model = js ''gemini-2.5-flash'',
                           contents = \<lparr>partText = Some promptText, inlineData = None\<rparr> # imageParts,
                           config = contentConfig\<rparr>
                    in (case contentAttempt ai request of
                          Inr v \<Rightarrow> \<lparr>returned = Inr v, sent = [request], console = []\<rparr>
                        | Inl error \<Rightarrow>
                            \<lparr>returned = Inl (Error (js ''Failed to generate content. Please try again.'')),
                             sent = [request],
                             console = [(js ''Gemini API Error:'', error)]\<rparr>)))))"

subsection \<open>\<open>generateLifestyleImage\<close>\<close>

definition lifestylePrompt :: "jsstring \<Rightarrow> jsstring \<Rightarrow> jsstring" where
  \<open>lifestylePrompt productName description =
     js ''Create a high-quality, professional Instagram lifestyle photography shot for the product "'' @
     productName @ js ''". '' @ [0x0A] @
     js ''  Context/Description: '' @ description @ js ''. '' @ [0x0A] @
     js ''  The image should be aesthetically pleasing, bright, and suitable for social media marketing. '' @
     [0x0A] @ js ''  Aspect Ratio 1:1.''\<close>

definition editDirective :: "jsstring \<Rightarrow> jsstring" where
  "editDirective editInstruction =
     [0x0A, 0x0A] @ js ''IMPORTANT EDIT INSTRUCTION: '' @ editInstruction @
     js ''. Modify the image to strictly follow this instruction (e.g., change color, background, or setting).''"

definition preserveDirective :: jsstring where
  "preserveDirective =
     js '' preserve the key visual details of the product in the input image but place it in a better background/setting.''"

text \<open>The loop over \<open>content.parts\<close>: the first part with non-empty inline data.\<close>

fun findImage :: "part list \<Rightarrow> jsstring option" where
  "findImage [] = None"
| "findImage (p # ps) =
     (case inlineData p of
        None \<Rightarrow> findImage ps
      | Some b \<Rightarrow>
          (case data b of
             None \<Rightarrow> findImage ps
           | Some d \<Rightarrow>
               (if d = [] then findImage ps
                else Some (js ''data:'' @
                           (case mimeType b of
                              None \<Rightarrow> js ''image/png''
                            | Some m \<Rightarrow> if m = [] then js ''image/png'' else m) @
                           js '';base64,'' @ d))))"

text \<open>The test in the loop, \<open>part.inlineData && part.inlineData.data\<close>.\<close>

definition carriesInlineData :: "part \<Rightarrow> bool" where
  "carriesInlineData p = (case inlineData p of None \<Rightarrow> False | Some b \<Rightarrow> truthy (data b))"

text \<open>\<open>response.candidates?.[0]?.content?.parts\<close>: what the loop runs over, nothing when absent.\<close>

definition scannedParts :: "response \<Rightarrow> part list" where
  "scannedParts response =
     (case candidates response of
        None \<Rightarrow> []
      | Some cs \<Rightarrow>
          (case elementAt cs 0 of
             None \<Rightarrow> []
           | Some c \<Rightarrow>
               (case candidateContent c of
                  None \<Rightarrow> []
                | Some content \<Rightarrow> (case parts content of None \<Rightarrow> [] | Some ps \<Rightarrow> ps))))"

text \<open>The body of the \<open>try\<close> block: the \<open>throw\<close> after the loop is inside it.\<close>

definition imageAttempt :: "transport \<Rightarrow> generateContentParameters \<Rightarrow> exn + jsstring" where
  "imageAttempt ai request =
     (case ai request of
        Inl e \<Rightarrow> Inl e
      | Inr response \<Rightarrow>
          (case findImage (scannedParts response) of
             Some uri \<Rightarrow> Inr uri
           | None \<Rightarrow> Inl (Error (js ''No image generated by the model.''))))"

definition generateLifestyleImage ::
  "env \<Rightarrow> transport \<Rightarrow> File option \<Rightarrow> jsstring \<Rightarrow> jsstring \<Rightarrow> jsstring \<Rightarrow> jsstring outcome" where
  "generateLifestyleImage environment ai originalImage productName description editInstruction =
     (if \<not> truthy (API_KEY environment)
      then throw (Error (js ''API Key is missing.''))
      else
        (let promptText0 = lifestylePrompt productName description;
             promptText1 =
               (if editInstruction \<noteq> [] then promptText0 @ editDirective editInstruction
                else promptText0)
         in (case optionalImagePart originalImage of
               Inl e \<Rightarrow> throw e
             | Inr imageParts \<Rightarrow>
                 (let promptText =
                        (if originalImage \<noteq> None then promptText1 @ preserveDirective
                         else promptText1);
                      request =
                        \<lparr>model = js ''gemini-2.5-flash-image'',
                         contents = imageParts @ [\<lparr>partText = Some promptText, inlineData = None\<rparr>],
                         config = \<lparr>responseMimeType = None, responseSchema = None,
                                   systemInstruction = None\<rparr>\<rparr>
                  in (case imageAttempt ai request of
                        Inr uri \<Rightarrow> \<lparr>returned = Inr uri, sent = [request], console = []\<rparr>
                      | Inl error \<Rightarrow>
                          \<lparr>returned = Inl (Error (js ''Failed to generate lifestyle image.'')),
                           sent = [request],
                           console = [(js ''Gemini Image Gen Error:'', error)]\<rparr>)))))"

section \<open>The declared types of the application\<close>

record GeneratedProductContent =
  productName :: jsstring
  shortDescription :: jsstring
  longDescription :: jsstring
  suggestedPrice :: jsstring
  seoKeywords :: "jsstring list"
  hashtags :: "jsstring list"
  socialMediaPost :: jsstring
  targetAudience :: jsstring

text \<open>
  Whether a value that \<open>JSON.parse\<close> returned has the shape the interface
  \<open>GeneratedProductContent\<close> declares: the eight properties, each a string or an
  array of strings as declared.
\<close>

definition isStringValue :: "json option \<Rightarrow> bool" where
  "isStringValue v = (case v of Some (JString s) \<Rightarrow> True | _ \<Rightarrow> False)"

definition isStringArray :: "json option \<Rightarrow> bool" where
  "isStringArray v =
     (case v of Some (JArray xs) \<Rightarrow> list_all (\<lambda>x. isStringValue (Some x)) xs | _ \<Rightarrow> False)"

definition isGeneratedProductContent :: "json \<Rightarrow> bool" where
  "isGeneratedProductContent v \<longleftrightarrow>
     isStringValue (getProperty v (js ''productName'')) \<and>
     isStringValue (getProperty v (js ''shortDescription'')) \<and>
     isStringValue (getProperty v (js ''longDescription'')) \<and>
     isStringValue (getProperty v (js ''suggestedPrice'')) \<and>
     isStringArray (getProperty v (js ''seoKeywords'')) \<and>
     isStringArray (getProperty v (js ''hashtags'')) \<and>
     isStringValue (getProperty v (js ''socialMediaPost'')) \<and>
     isStringValue (getProperty v (js ''targetAudience''))"

datatype GenerationStatus = IDLE | LOADING | SUCCESS | ERROR

section \<open>Compositing the download (\<open>ResultCard.handleDownload\<close>)\<close>

subsection \<open>Numbers\<close>

text \<open>
  A JavaScript number is a double. The model keeps its special values, which
  decide what the canvas is asked to draw, and computes with finite values
  exactly: rounding is not modelled, and there is one zero.
\<close>

datatype jsnum = NaN | Fin real | PosInf | NegInf

definition signedInf :: "bool \<Rightarrow> jsnum" where
  "signedInf negative = (if negative then NegInf else PosInf)"

fun isNegative :: "jsnum \<Rightarrow> bool" where
  "isNegative (Fin a) = (a < 0)"
| "isNegative NegInf = True"
| "isNegative _ = False"

fun negate :: "jsnum \<Rightarrow> jsnum" where
  "negate NaN = NaN"
| "negate (Fin a) = Fin (- a)"
| "negate PosInf = NegInf"
| "negate NegInf = PosInf"

instantiation jsnum :: "{plus, minus, times, inverse, ord}"
begin

fun plus_jsnum :: "jsnum \<Rightarrow> jsnum \<Rightarrow> jsnum" where
  "plus_jsnum NaN y = NaN"
| "plus_jsnum x NaN = NaN"
| "plus_jsnum (Fin a) (Fin b) = Fin (a + b)"
| "plus_jsnum PosInf NegInf = NaN"
| "plus_jsnum NegInf PosInf = NaN"
| "plus_jsnum PosInf y = PosInf"
| "plus_jsnum NegInf y = NegInf"
| "plus_jsnum (Fin a) y = y"

definition minus_jsnum :: "jsnum \<Rightarrow> jsnum \<Rightarrow> jsnum" where
  "minus_jsnum x y = x + negate y"

fun times_jsnum :: "jsnum \<Rightarrow> jsnum \<Rightarrow> jsnum" where
  "times_jsnum NaN y = NaN"
| "times_jsnum x NaN = NaN"
| "times_jsnum (Fin a) (Fin b) = Fin (a * b)"
| "times_jsnum x y =
     (if x = Fin 0 \<or> y = Fin 0 then NaN else signedInf (isNegative x \<noteq> isNegative y))"

fun divide_jsnum :: "jsnum \<Rightarrow> jsnum \<Rightarrow> jsnum" where
  "divide_jsnum NaN y = NaN"
| "divide_jsnum x NaN = NaN"
| "divide_jsnum (Fin a) (Fin b) =
     (if b = 0 then (if a = 0 then NaN else signedInf (a < 0)) else Fin (a / b))"
| "divide_jsnum (Fin a) y = Fin 0"
| "divide_jsnum x (Fin b) = signedInf (isNegative x \<noteq> (b < 0))"
| "divide_jsnum x y = NaN"

definition inverse_jsnum :: "jsnum \<Rightarrow> jsnum" where
  "inverse_jsnum x = divide (Fin 1) x"

fun less_jsnum :: "jsnum \<Rightarrow> jsnum \<Rightarrow> bool" where
  "less_jsnum NaN y = False"
| "less_jsnum x NaN = False"
| "less_jsnum (Fin a) (Fin b) = (a < b)"
| "less_jsnum x NegInf = False"
| "less_jsnum PosInf y = False"
| "less_jsnum x y = True"

definition less_eq_jsnum :: "jsnum \<Rightarrow> jsnum \<Rightarrow> bool" where
  "less_eq_jsnum x y \<longleftrightarrow> x < y \<or> (x = y \<and> x \<noteq> NaN)"

instance ..

end

text \<open>\<open>Math.max(a, b)\<close>.\<close>

definition Math_max :: "jsnum \<Rightarrow> jsnum \<Rightarrow> jsnum" where
  "Math_max a b = (if a = NaN \<or> b = NaN then NaN else if a < b then b else a)"

text \<open>Whether a number is neither \<open>NaN\<close> nor infinite.\<close>

fun isFinite :: "jsnum \<Rightarrow> bool" where
  "isFinite (Fin a) = True"
| "isFinite _ = False"

subsection \<open>The canvas\<close>

text \<open>
  The font string \<open>bold ${fontSize}px Inter, sans-serif\<close>, kept as its parts: the
  weight, the size in pixels, the family.
\<close>

datatype font = Font jsstring jsnum jsstring

text \<open>
  The calls and assignments the handler makes on the 2D context, in order. An
  image is named by its \<open>src\<close>.
\<close>

datatype canvasCall =
    DrawImage jsstring jsnum jsnum
  | DrawImageScaled jsstring jsnum jsnum jsnum jsnum
  | SetShadowColor jsstring
  | SetShadowBlur jsnum
  | SetFont font
  | SetFillStyle jsstring
  | SetTextAlign jsstring
  | SetTextBaseline jsstring
  | FillText jsstring jsnum jsnum
  | RoundRect jsnum jsnum jsnum jsnum jsnum
  | FillRect jsnum jsnum jsnum jsnum
  | Fill

text \<open>
  What the page gets from the browser: for a \<open>src\<close>, the natural size of the
  image if it loads (\<open>None\<close> if the load fails); whether the canvas gives a 2D
  context and whether that has \<open>roundRect\<close>; whether \<open>drawImage\<close> throws
  \<open>InvalidStateError\<close> for an image that failed to load before it looks at its
  numeric arguments (browsers differ); the width \<open>measureText\<close> reports for a text
  in a font; \<open>String.prototype.toLowerCase\<close>.
\<close>

record browser =
  loadImage :: "jsstring \<Rightarrow> (nat \<times> nat) option"
  has2dContext :: bool
  hasRoundRect :: bool
  drawImageRejectsBroken :: bool
  measureText :: "font \<Rightarrow> jsstring \<Rightarrow> real"
  toLowerCase :: "jsstring \<Rightarrow> jsstring"

text \<open>The file offered by \<open>link.click()\<close>: its name and the raster \<open>toDataURL\<close> encodes.\<close>

record download =
  filename :: jsstring
  pngWidth :: nat
  pngHeight :: nat
  pngCalls :: "canvasCall list"

record composition =
  canvasWidth :: nat
  canvasHeight :: nat
  calls :: "canvasCall list"
  downloaded :: "download option"

text \<open>\<open>s.replace(/\s+/g, '-')\<close>.\<close>

function replaceWhitespace :: "jsstring \<Rightarrow> jsstring" where
  "replaceWhitespace [] = []"
| "replaceWhitespace (c # cs) =
     (if isWhiteSpace c then ch CHR ''-'' # replaceWhitespace (dropWhile isWhiteSpace cs)
      else c # replaceWhitespace cs)"
  by pat_completeness auto
termination
  by (relation "measure length") (auto simp: length_dropWhile_le less_Suc_eq_le)

subsection \<open>The handler\<close>

text \<open>
  Drawing the logo: \<open>logoImg.width\<close> and \<open>logoImg.height\<close> are the natural size of
  the logo, or \<open>0\<close> and \<open>0\<close> when it failed to load (the handler goes on after
  \<open>onerror\<close> as after \<open>onload\<close>). The result is the calls made and the new
  \<open>brandingY\<close>, or \<open>None\<close> in its place when \<open>drawImage\<close> threw, which ends the
  handler.
\<close>

definition drawLogo ::
  "browser \<Rightarrow> jsstring \<Rightarrow> jsnum \<Rightarrow> jsnum \<Rightarrow> jsnum \<Rightarrow> canvasCall list \<times> jsnum option" where
  "drawLogo b logoUrl scaleFactor brandingX brandingY =
     (let (logoWidth, logoHeight) = (case loadImage b logoUrl of None \<Rightarrow> (0, 0) | Some wh \<Rightarrow> wh);
          logoSize = Fin 120 * scaleFactor;
          aspectRatio = Fin (real logoWidth) / Fin (real logoHeight);
          drawWidth0 = logoSize;
          drawHeight0 = logoSize / aspectRatio;
          (drawWidth, drawHeight) =
            (if logoSize < drawHeight0 then (logoSize * aspectRatio, logoSize)
             else (drawWidth0, drawHeight0));
          shadow = [SetShadowColor (js ''rgba(0,0,0,0.5)''), SetShadowBlur (Fin 10 * scaleFactor)]
      in if loadImage b logoUrl = None \<and> drawImageRejectsBroken b
         then (shadow, None)
         else (shadow @ [DrawImageScaled logoUrl brandingX brandingY drawWidth drawHeight],
               Some (brandingY + (drawHeight + Fin 20 * scaleFactor))))"

definition drawBusinessName :: "jsstring \<Rightarrow> jsnum \<Rightarrow> jsnum \<Rightarrow> jsnum \<Rightarrow> canvasCall list" where
  "drawBusinessName businessName scaleFactor brandingX brandingY =
     (let fontSize = Fin 40 * scaleFactor
      in [SetFont (Font (js ''bold'') fontSize (js ''Inter, sans-serif'')),
          SetShadowColor (js ''rgba(0,0,0,0.8)''),
          SetShadowBlur (Fin 8 * scaleFactor),
          SetFillStyle (js ''white''),
          SetTextAlign (js ''left''),
          SetTextBaseline (js ''top''),
          FillText businessName brandingX brandingY])"

definition priceFont :: "nat \<Rightarrow> font" where
  "priceFont imgWidth =
     Font (js ''bold'') (Math_max (Fin 20) (Fin (real imgWidth) * Fin 0.05)) (js ''Inter, sans-serif'')"

definition drawPriceTag :: "browser \<Rightarrow> nat \<Rightarrow> nat \<Rightarrow> jsstring \<Rightarrow> canvasCall list" where
  "drawPriceTag b imgWidth imgHeight customPrice =
     (let fontSize = Math_max (Fin 20) (Fin (real imgWidth) * Fin 0.05);
          padding = fontSize * Fin 0.6;
          x = Fin (real imgWidth) * Fin 0.95;
          y = Fin (real imgHeight) * Fin 0.95;
          textWidth = Fin (measureText b (priceFont imgWidth) customPrice)
      in [SetFont (priceFont imgWidth),
          SetShadowColor (js ''rgba(0,0,0,0.3)''),
          SetShadowBlur (Fin 10),
          SetFillStyle (js ''white''),
          (if hasRoundRect b
           then RoundRect (x - textWidth - (padding * Fin 2)) (y - fontSize - padding)
                  (textWidth + (padding * Fin 2)) (fontSize + (padding * Fin 1.5)) (Fin 12)
           else FillRect (x - textWidth - (padding * Fin 2)) (y - fontSize - padding)
                  (textWidth + (padding * Fin 2)) (fontSize + (padding * Fin 1.5))),
          Fill,
          SetShadowBlur (Fin 0),
          SetFillStyle (js ''#4f46e5''),
          SetTextAlign (js ''right''),
          SetTextBaseline (js ''bottom''),
          FillText customPrice (x - padding) y])"

text \<open>
  \<open>handleDownload\<close>, with the props and the state of the card as arguments.
  \<open>None\<close>: the handler returned at once, without a canvas. A new canvas is 300 by
  150; \<open>img.onload\<close> runs only if the base image loads.
\<close>

definition handleDownload ::
  "browser \<Rightarrow> GeneratedProductContent \<Rightarrow> jsstring option \<Rightarrow> jsstring option \<Rightarrow> jsstring \<Rightarrow>
   jsstring \<Rightarrow> composition option" where
  "handleDownload b listing marketingImageUrl logoUrl businessName customPrice =
     (case marketingImageUrl of
        None \<Rightarrow> None
      | Some src \<Rightarrow>
          (if src = [] then None
           else
             (case loadImage b src of
                None \<Rightarrow>
                  Some \<lparr>canvasWidth = 300, canvasHeight = 150, calls = [], downloaded = None\<rparr>
              | Some (imgWidth, imgHeight) \<Rightarrow>
                  (if \<not> has2dContext b
                   then Some \<lparr>canvasWidth = imgWidth, canvasHeight = imgHeight, calls = [],
                              downloaded = None\<rparr>
                   else
                     (let scaleFactor = Fin (real imgWidth) / Fin 1000;
                          brandingY0 = Fin 40 * scaleFactor;
                          brandingX = Fin 40 * scaleFactor;
                          (logoCalls, logoDrawn) =
                            (case logoUrl of
                               None \<Rightarrow> ([], Some brandingY0)
                             | Some l \<Rightarrow>
                                 (if l = [] then ([], Some brandingY0)
                                  else drawLogo b l scaleFactor brandingX brandingY0))
                      in (case logoDrawn of
                            None \<Rightarrow>
                              Some \<lparr>canvasWidth = imgWidth, canvasHeight = imgHeight,
                                    calls = [DrawImage src (Fin 0) (Fin 0)] @ logoCalls,
                                    downloaded = None\<rparr>
                          | Some brandingY \<Rightarrow>
                              (let nameCalls =
                                     (if businessName \<noteq> []
                                      then drawBusinessName businessName scaleFactor brandingX
                                             brandingY
                                      else []);
                                   drawn = [DrawImage src (Fin 0) (Fin 0)] @ logoCalls @
                                           nameCalls @
                                           drawPriceTag b imgWidth imgHeight customPrice
                               in Some \<lparr>canvasWidth = imgWidth, canvasHeight = imgHeight,
                                        calls = drawn,
                                        downloaded = Some
                                          \<lparr>filename = js ''merchant-ai-'' @
                                             toLowerCase b
                                               (replaceWhitespace (productName listing)) @
                                             js ''.png'',
                                           pngWidth = imgWidth, pngHeight = imgHeight,
                                           pngCalls = drawn\<rparr>\<rparr>)))))))"

text \<open>
  Whether the handler stops at the logo: a logo is given, it fails to load, and
  \<open>drawImage\<close> throws for such an image.
\<close>

definition logoAborts :: "browser \<Rightarrow> jsstring option \<Rightarrow> bool" where
  "logoAborts b logoUrl =
     (case logoUrl of
        None \<Rightarrow> False
      | Some l \<Rightarrow> l \<noteq> [] \<and> loadImage b l = None \<and> drawImageRejectsBroken b)"

text \<open>
  The Canvas 2D methods \<open>drawImage\<close>, \<open>fillText\<close>, \<open>fillRect\<close> and \<open>roundRect\<close>
  return without drawing when one of their numeric arguments is \<open>NaN\<close> or infinite.
\<close>

fun takesEffect :: "canvasCall \<Rightarrow> bool" where
  "takesEffect (DrawImage i x y) = (isFinite x \<and> isFinite y)"
| "takesEffect (DrawImageScaled i x y w h) = (isFinite x \<and> isFinite y \<and> isFinite w \<and> isFinite h)"
| "takesEffect (FillText t x y) = (isFinite x \<and> isFinite y)"
| "takesEffect (RoundRect x y w h r) = (isFinite x \<and> isFinite y \<and> isFinite w \<and> isFinite h)"
| "takesEffect (FillRect x y w h) = (isFinite x \<and> isFinite y \<and> isFinite w \<and> isFinite h)"
| "takesEffect _ = True"

text \<open>The widths of the rectangles behind the price, in the order drawn.\<close>

fun pillWidths :: "canvasCall list \<Rightarrow> jsnum list" where
  "pillWidths [] = []"
| "pillWidths (RoundRect x y w h r # cs) = w # pillWidths cs"
| "pillWidths (FillRect x y w h # cs) = w # pillWidths cs"
| "pillWidths (c # cs) = pillWidths cs"

section \<open>The application (\<open>App\<close>)\<close>

record 'd AppState =
  status :: GenerationStatus
  data :: 'd
  error :: "jsstring option"
  selectedImage :: "File option"
  imagePreviewUrl :: "jsstring option"
  textInput :: jsstring
  isGeneratingImage :: bool
  marketingImageUrl :: "jsstring option"

text \<open>
  What a handler does: the functional updates it passes to \<open>setState\<close>, in order;
  the requests it has sent; the lines on the console; the \<open>alert\<close> boxes; whether
  it scrolled the window to the top.
\<close>

record 'd handled =
  updates :: "('d AppState \<Rightarrow> 'd AppState) list"
  requests :: "generateContentParameters list"
  errorLog :: "(jsstring \<times> exn) list"
  alerts :: "jsstring list"
  scrolled :: bool

definition applyUpdates :: "('s \<Rightarrow> 's) list \<Rightarrow> 's \<Rightarrow> 's" where
  "applyUpdates us s = foldl (\<lambda>prev u. u prev) s us"

text \<open>
  \<open>handleGenerate\<close>. The state holds in \<open>data\<close> what \<open>generateProductContent\<close>
  returned, hence a JSON value, \<open>null\<close> at first.
\<close>

definition handleGenerate :: "env \<Rightarrow> transport \<Rightarrow> json AppState \<Rightarrow> json handled" where
  "handleGenerate environment ai state =
     (if selectedImage state = None \<and> trim (textInput state) = []
      then \<lparr>updates =
              [\<lambda>prev. prev\<lparr>error := Some (js ''Please upload an image or enter a description first.'')\<rparr>],
            requests = [], errorLog = [], alerts = [], scrolled = False\<rparr>
      else
        (let loading = (\<lambda>prev. prev\<lparr>status := LOADING, error := None,
                                      marketingImageUrl := None, isGeneratingImage := False\<rparr>);
             out = generateProductContent environment ai (selectedImage state) (textInput state)
         in (case returned out of
               Inr result \<Rightarrow>
                 \<lparr>updates = [loading, \<lambda>prev. prev\<lparr>status := SUCCESS, data := result\<rparr>],
                  requests = sent out, errorLog = console out, alerts = [], scrolled = True\<rparr>
             | Inl err \<Rightarrow>
                 \<lparr>updates =
                    [loading,
                     \<lambda>prev. prev\<lparr>status := ERROR,
                                 error := Some
                                   (case message err of
                                      None \<Rightarrow> js ''Something went wrong. Please try again.''
                                    | Some m \<Rightarrow>
                                        if m = [] then js ''Something went wrong. Please try again.''
                                        else m)\<rparr>],
                  requests = sent out, errorLog = console out, alerts = [], scrolled = False\<rparr>)))"

text \<open>
  \<open>handleGenerateImage\<close>, on a state whose \<open>data\<close> has the declared type
  \<open>GeneratedProductContent | null\<close>.
\<close>

definition handleGenerateImage ::
  "env \<Rightarrow> transport \<Rightarrow> GeneratedProductContent option AppState \<Rightarrow> jsstring \<Rightarrow>
   GeneratedProductContent option handled" where
  "handleGenerateImage environment ai state editInstruction =
     (case data state of
        None \<Rightarrow> \<lparr>updates = [], requests = [], errorLog = [], alerts = [], scrolled = False\<rparr>
      | Some listing \<Rightarrow>
          (let generating = (\<lambda>prev. prev\<lparr>isGeneratingImage := True\<rparr>);
               out = generateLifestyleImage environment ai (selectedImage state)
                       (productName listing) (shortDescription listing) editInstruction
           in (case returned out of
                 Inr imageUrl \<Rightarrow>
                   \<lparr>updates =
                      [generating,
                       \<lambda>prev. prev\<lparr>isGeneratingImage := False, marketingImageUrl := Some imageUrl\<rparr>],
                    requests = sent out, errorLog = console out, alerts = [], scrolled = False\<rparr>
               | Inl err \<Rightarrow>
                   \<lparr>updates = [generating, \<lambda>prev. prev\<lparr>isGeneratingImage := False\<rparr>],
                    requests = sent out, errorLog = console out,
                    alerts =
                      [js ''Could not generate image: '' @
                       (case message err of None \<Rightarrow> js ''undefined'' | Some m \<Rightarrow> m)],
                    scrolled = False\<rparr>)))"

section \<open>Sample inputs\<close>

definition configured :: env where
  "configured = \<lparr>API_KEY = Some (js ''test-key'')\<rparr>"

definition unconfigured :: env where
  "unconfigured = \<lparr>API_KEY = None\<rparr>"

text \<open>A service that cannot be reached, and services with a fixed answer.\<close>

definition offline :: transport where
  "offline request = Inl (Error (js ''fetch failed''))"

definition answering :: "jsstring \<Rightarrow> transport" where
  "answering body request = Inr \<lparr>responseText = Some body, candidates = None\<rparr>"

definition answeringParts :: "part list \<Rightarrow> transport" where
  "answeringParts ps request =
     Inr \<lparr>responseText = None,
          candidates = Some [\<lparr>candidateContent = Some \<lparr>parts = Some ps\<rparr>\<rparr>]\<rparr>"

definition imageAnswer :: "part list" where
  "imageAnswer =
     [\<lparr>partText = Some (js ''Here you go''), inlineData = None\<rparr>,
      \<lparr>partText = None,
       inlineData = Some \<lparr>blob.data = Some (js ''AAAA''), mimeType = None\<rparr>\<rparr>]"

definition kaftanJson :: jsstring where
  \<open>kaftanJson =
     js ''{"productName":"Blue Kaftan","shortDescription":"Soft.","longDescription":"Cotton.","suggestedPrice":"N15,000","seoKeywords":["kaftan"],"hashtags":["#kaftan"],"socialMediaPost":"New!","targetAudience":"Men"}''\<close>

definition kaftanValue :: json where
  "kaftanValue =
     JObject
       [(js ''productName'', JString (js ''Blue Kaftan'')),
        (js ''shortDescription'', JString (js ''Soft.'')),
        (js ''longDescription'', JString (js ''Cotton.'')),
        (js ''suggestedPrice'', JString (js ''N15,000'')),
        (js ''seoKeywords'', JArray [JString (js ''kaftan'')]),
        (js ''hashtags'', JArray [JString (js ''#kaftan'')]),
        (js ''socialMediaPost'', JString (js ''New!'')),
        (js ''targetAudience'', JString (js ''Men''))]"

definition kaftan :: GeneratedProductContent where
  "kaftan =
     \<lparr>productName = js ''Blue Kaftan'', shortDescription = js ''Soft.'',
      longDescription = js ''Cotton.'', suggestedPrice = js ''N15,000'',
      seoKeywords = [js ''kaftan''], hashtags = [js ''#kaftan''],
      socialMediaPost = js ''New!'', targetAudience = js ''Men''\<rparr>"

text \<open>
  A browser in which the generated image is 1000 by 1000, every other image fails
  to load, and a text is 10 pixels wide per code unit.
\<close>

definition sampleBrowser :: browser where
  "sampleBrowser =
     \<lparr>loadImage = (\<lambda>src. if src = js ''data:image/png;base64,AAAA'' then Some (1000, 1000) else None),
      has2dContext = True,
      hasRoundRect = True,
      drawImageRejectsBroken = False,
      measureText = (\<lambda>f t. 10 * real (length t)),
      toLowerCase = (\<lambda>s. s)\<rparr>"

definition sampleState :: "GeneratedProductContent option AppState" where
  "sampleState =
     \<lparr>status = SUCCESS, data = Some kaftan, error = None, selectedImage = None,
      imagePreviewUrl = None, textInput = js ''blue kaftan'', isGeneratingImage = False,
      marketingImageUrl = Some (js ''data:image/png;base64,AAAA'')\<rparr>"

definition blankState :: "json AppState" where
  "blankState =
     \<lparr>status = IDLE, data = JNull, error = None, selectedImage = None,
      imagePreviewUrl = None, textInput = js '' '', isGeneratingImage = False,
      marketingImageUrl = None\<rparr>"

section \<open>Properties of the generation service\<close>

lemma js_Nil_iff [simp]: "js s = [] \<longleftrightarrow> s = []"
  by (simp add: js_def)

lemma parse_empty_object: "JSON_parse (js ''{}'') = Some (JObject [])"
  by code_simp

lemma optionalImagePart_text:
  "optionalImagePart img = Inr ps \<Longrightarrow> \<forall>p\<in>set ps. partText p = None"
  by (auto simp: optionalImagePart_def fileToGenerativePart_def Let_def split: option.splits sum.splits)

lemma optionalImagePart_readable:
  "\<forall>f. img = Some f \<longrightarrow> dataURL f \<noteq> None \<Longrightarrow> \<exists>ps. optionalImagePart img = Inr ps"
  by (auto simp: optionalImagePart_def fileToGenerativePart_def Let_def split: option.splits sum.splits)

lemma contentAttempt_Inr:
  "contentAttempt ai request = Inr v \<longleftrightarrow>
     (\<exists>response body. ai request = Inr response \<and> responseText response = Some body \<and>
        body \<noteq> [] \<and> JSON_parse body = Some v)"
  by (auto simp: contentAttempt_def split: sum.splits option.splits if_splits)

lemma content_sent:
  assumes "sent (generateProductContent e ai img hint) = [request]"
  shows "returned (generateProductContent e ai img hint) =
     (case contentAttempt ai request of
        Inr v \<Rightarrow> Inr v
      | Inl x \<Rightarrow> Inl (Error (js ''Failed to generate content. Please try again.'')))"
proof (cases "optionalImagePart img")
  case (Inl x)
  with assms show ?thesis
    by (simp add: generateProductContent_def throw_def Let_def split: if_splits)
next
  case (Inr ps)
  with assms show ?thesis
    by (auto simp: generateProductContent_def throw_def Let_def split: if_splits sum.splits)
qed

lemma content_returned:
  assumes "returned (generateProductContent e ai img hint) = Inr v"
  shows "\<exists>request. sent (generateProductContent e ai img hint) = [request] \<and>
             contentAttempt ai request = Inr v"
proof (cases "optionalImagePart img")
  case (Inl x)
  with assms show ?thesis
    by (simp add: generateProductContent_def throw_def Let_def split: if_splits)
next
  case (Inr ps)
  with assms show ?thesis
    by (auto simp: generateProductContent_def throw_def Let_def split: if_splits sum.splits)
qed

text \<open>
  C1, as the specification states it, fails: when the service answers with the
  body \<open>{}\<close>, the operation returns the empty object, which has none of the eight
  fields.
\<close>

theorem unchecked_listing_counterexample:
  "returned (generateProductContent configured (answering (js ''{}'')) None (js ''blue kaftan''))
     = Inr (JObject []) \<and> \<not> isGeneratedProductContent (JObject [])"
  by (simp add: generateProductContent_def configured_def truthy_def answering_def
      contentAttempt_def parse_empty_object isGeneratedProductContent_def isStringValue_def
      Let_def optionalImagePart_def)

text \<open>
  C1, amended: whenever content generation returns, it has sent one request, the
  response had a non-empty body, and the value returned is what \<open>JSON.parse\<close>
  makes of that body. Conversely, whatever \<open>JSON.parse\<close> makes of a non-empty body
  is returned as it is, with no check of its fields. When the body is absent,
  empty or not JSON, the operation raises the generic error. A request is sent
  whenever the credential is present, an image or a text is given, and the image,
  if any, can be read.
\<close>

theorem content_returns_parsed_body:
  "(returned (generateProductContent e ai img hint) = Inr v \<longrightarrow>
      (\<exists>request response body.
         sent (generateProductContent e ai img hint) = [request] \<and>
         ai request = Inr response \<and> responseText response = Some body \<and> body \<noteq> [] \<and>
         JSON_parse body = Some v)) \<and>
   (\<forall>request response body w.
      sent (generateProductContent e ai img hint) = [request] \<and> ai request = Inr response \<and>
      responseText response = Some body \<and> body \<noteq> [] \<and> JSON_parse body = Some w \<longrightarrow>
      returned (generateProductContent e ai img hint) = Inr w) \<and>
   (\<forall>request response.
      sent (generateProductContent e ai img hint) = [request] \<and> ai request = Inr response \<and>
      (\<not> truthy (responseText response) \<or>
       (\<exists>body. responseText response = Some body \<and> JSON_parse body = None)) \<longrightarrow>
      returned (generateProductContent e ai img hint) =
        Inl (Error (js ''Failed to generate content. Please try again.''))) \<and>
   (truthy (API_KEY e) \<and> \<not> (img = None \<and> hint = []) \<and>
    (\<forall>f. img = Some f \<longrightarrow> dataURL f \<noteq> None) \<longrightarrow>
      length (sent (generateProductContent e ai img hint)) = 1)"
proof (intro conjI impI allI)
  assume "returned (generateProductContent e ai img hint) = Inr v"
  then obtain request where
    s: "sent (generateProductContent e ai img hint) = [request]" and
    a: "contentAttempt ai request = Inr v"
    using content_returned by blast
  from a obtain response body where
    "ai request = Inr response" "responseText response = Some body" "body \<noteq> []"
    "JSON_parse body = Some v"
    unfolding contentAttempt_Inr by blast
  with s show "\<exists>request response body.
         sent (generateProductContent e ai img hint) = [request] \<and>
         ai request = Inr response \<and> responseText response = Some body \<and> body \<noteq> [] \<and>
         JSON_parse body = Some v"
    by blast
next
  fix request response body w
  assume h: "sent (generateProductContent e ai img hint) = [request] \<and> ai request = Inr response \<and>
      responseText response = Some body \<and> body \<noteq> [] \<and> JSON_parse body = Some w"
  then have "contentAttempt ai request = Inr w"
    unfolding contentAttempt_Inr by blast
  with h show "returned (generateProductContent e ai img hint) = Inr w"
    using content_sent [of e ai img hint request] by simp
next
  fix request response
  assume h: "sent (generateProductContent e ai img hint) = [request] \<and> ai request = Inr response \<and>
      (\<not> truthy (responseText response) \<or>
       (\<exists>body. responseText response = Some body \<and> JSON_parse body = None))"
  then have "\<exists>x. contentAttempt ai request = Inl x"
    by (auto simp: contentAttempt_def truthy_def split: option.splits)
  with h show "returned (generateProductContent e ai img hint) =
        Inl (Error (js ''Failed to generate content. Please try again.''))"
    using content_sent [of e ai img hint request] by auto
next
  assume h: "truthy (API_KEY e) \<and> \<not> (img = None \<and> hint = []) \<and>
    (\<forall>f. img = Some f \<longrightarrow> dataURL f \<noteq> None)"
  then obtain ps where "optionalImagePart img = Inr ps"
    using optionalImagePart_readable by blast
  with h show "length (sent (generateProductContent e ai img hint)) = 1"
    by (auto simp: generateProductContent_def Let_def split: sum.splits)
qed

lemma parse_kaftan: "JSON_parse kaftanJson = Some kaftanValue"
  by code_simp

lemma kaftan_is_listing: "isGeneratedProductContent kaftanValue"
  by code_simp

lemma kaftanJson_nonempty: "kaftanJson \<noteq> []"
  by (simp add: kaftanJson_def)

lemma parse_sorry: "JSON_parse (js ''Sorry'') = None"
  by code_simp

theorem content_returns_parsed_body_witness:
  "returned (generateProductContent configured (answering kaftanJson) None (js ''blue kaftan'')) =
     Inr kaftanValue \<and>
   isGeneratedProductContent kaftanValue \<and>
   (\<exists>request response body.
      sent (generateProductContent configured (answering kaftanJson) None (js ''blue kaftan'')) =
        [request] \<and>
      answering kaftanJson request = Inr response \<and> responseText response = Some body \<and>
      body \<noteq> [] \<and> JSON_parse body = Some kaftanValue) \<and>
   JSON_parse (js ''{}'') = Some (JObject []) \<and> \<not> isGeneratedProductContent (JObject []) \<and>
   returned (generateProductContent configured (answering (js ''{}'')) None (js ''blue kaftan'')) =
     Inr (JObject []) \<and>
   JSON_parse (js ''Sorry'') = None \<and>
   returned (generateProductContent configured (answering (js ''Sorry'')) None (js ''blue kaftan'')) =
     Inl (Error (js ''Failed to generate content. Please try again.'')) \<and>
   length (sent (generateProductContent configured (answering (js ''{}'')) None (js ''blue kaftan''))) = 1"
proof -
  let ?bad = "generateProductContent configured (answering (js ''Sorry'')) None (js ''blue kaftan'')"
  let ?bare = "generateProductContent configured (answering (js ''{}'')) None (js ''blue kaftan'')"
  have r: "returned (generateProductContent configured (answering kaftanJson) None
             (js ''blue kaftan'')) = Inr kaftanValue"
    by (simp add: generateProductContent_def configured_def truthy_def answering_def
        contentAttempt_def parse_kaftan Let_def optionalImagePart_def kaftanJson_nonempty)
  have s: "sent ?bad = [hd (sent ?bad)]"
    by (simp add: generateProductContent_def configured_def truthy_def Let_def
        optionalImagePart_def split: sum.splits)
  have a: "answering (js ''Sorry'') (hd (sent ?bad)) =
             Inr \<lparr>responseText = Some (js ''Sorry''), candidates = None\<rparr>"
    by (simp add: answering_def)
  have b: "\<exists>body. responseText \<lparr>responseText = Some (js ''Sorry''), candidates = None\<rparr> = Some body \<and>
             JSON_parse body = None"
    by (simp add: parse_sorry)
  have k: "truthy (API_KEY configured) \<and> \<not> ((None :: File option) = None \<and> js ''blue kaftan'' = []) \<and>
           (\<forall>f. (None :: File option) = Some f \<longrightarrow> dataURL f \<noteq> None)"
    by (simp add: configured_def truthy_def)
  note t1 = content_returns_parsed_body
         [of configured "answering kaftanJson" None "js ''blue kaftan''" kaftanValue]
  note t2 = content_returns_parsed_body
         [of configured "answering (js ''Sorry'')" None "js ''blue kaftan''" kaftanValue]
  note t3 = content_returns_parsed_body
         [of configured "answering (js ''{}'')" None "js ''blue kaftan''" kaftanValue]
  from t2 s a b have 2: "returned ?bad = Inl (Error (js ''Failed to generate content. Please try again.''))"
    by blast
  from t3 k have l: "length (sent ?bare) = 1" by blast
  then obtain request where sb: "sent ?bare = [request]"
    by (cases "sent ?bare") auto
  have ab: "answering (js ''{}'') request =
              Inr \<lparr>responseText = Some (js ''{}''), candidates = None\<rparr> \<and>
            responseText \<lparr>responseText = Some (js ''{}''), candidates = None\<rparr> = Some (js ''{}'') \<and>
            js ''{}'' \<noteq> [] \<and> JSON_parse (js ''{}'') = Some (JObject [])"
    by (simp add: answering_def parse_empty_object)
  from t3 sb ab have 3: "returned ?bare = Inr (JObject [])" by blast
  have n: "\<not> isGeneratedProductContent (JObject [])"
    by (simp add: isGeneratedProductContent_def isStringValue_def)
  from t1 r kaftan_is_listing parse_sorry parse_empty_object 2 3 l n show ?thesis by blast
qed

text \<open>
  C2, as the specification states it, fails: without a credential the call with
  no image and no text raises the credential error, not the input-validation
  error.
\<close>

theorem empty_input_counterexample:
  "returned (generateProductContent unconfigured offline None []) \<noteq>
     Inl (Error (js ''Please provide an image or text description.''))"
  by (simp add: generateProductContent_def unconfigured_def truthy_def throw_def js_def ch_def)

text \<open>
  C2, amended: a call of content generation with no image and an empty text sends
  no request and raises: the input-validation error when the credential is
  present, the credential error when it is not.
\<close>

theorem empty_input_fails_before_request:
  assumes "img = None" and "hint = []"
  shows "sent (generateProductContent e ai img hint) = [] \<and>
         returned (generateProductContent e ai img hint) =
           (if truthy (API_KEY e)
            then Inl (Error (js ''Please provide an image or text description.''))
            else Inl (Error (js ''API Key is missing. Please check your environment variables.'')))"
  using assms by (simp add: generateProductContent_def throw_def Let_def)

theorem empty_input_fails_before_request_witness:
  "sent (generateProductContent configured offline None []) = [] \<and>
   returned (generateProductContent configured offline None []) =
     Inl (Error (js ''Please provide an image or text description.''))"
  using empty_input_fails_before_request [of None "[]" configured offline]
  by (simp add: configured_def truthy_def)

text \<open>
  C6: when the credential is missing from the environment (or is the empty
  string), both generation operations raise their credential error and send no
  request.
\<close>

theorem missing_credential_fails_before_request:
  assumes "\<not> truthy (API_KEY e)"
  shows "returned (generateProductContent e ai img hint) =
           Inl (Error (js ''API Key is missing. Please check your environment variables.'')) \<and>
         sent (generateProductContent e ai img hint) = [] \<and>
         returned (generateLifestyleImage e ai img name desc edit) =
           Inl (Error (js ''API Key is missing.'')) \<and>
         sent (generateLifestyleImage e ai img name desc edit) = []"
  using assms by (simp add: generateProductContent_def generateLifestyleImage_def throw_def)

theorem missing_credential_fails_before_request_witness:
  "\<not> truthy (API_KEY unconfigured) \<and>
   returned (generateProductContent unconfigured offline None (js ''blue kaftan'')) =
     Inl (Error (js ''API Key is missing. Please check your environment variables.'')) \<and>
   sent (generateProductContent unconfigured offline None (js ''blue kaftan'')) = [] \<and>
   returned (generateLifestyleImage unconfigured offline None (js ''Blue Kaftan'') (js ''Soft.'') []) =
     Inl (Error (js ''API Key is missing.'')) \<and>
   sent (generateLifestyleImage unconfigured offline None (js ''Blue Kaftan'') (js ''Soft.'') []) = []"
  using missing_credential_fails_before_request
    [of unconfigured offline None "js ''blue kaftan''" "js ''Blue Kaftan''" "js ''Soft.''" "[]"]
  by (simp add: unconfigured_def truthy_def)

lemma findImage_None:
  "findImage ps = None \<longleftrightarrow> (\<forall>p\<in>set ps. \<not> carriesInlineData p)"
  by (induction ps) (auto simp: carriesInlineData_def truthy_def split: option.splits)

lemma findImage_first:
  assumes "\<forall>q\<in>set front. \<not> carriesInlineData q"
    and "inlineData p = Some b" and "blob.data b = Some d" and "d \<noteq> []"
  shows "findImage (front @ p # rest) =
           Some (js ''data:'' @
                 (case mimeType b of
                    None \<Rightarrow> js ''image/png''
                  | Some m \<Rightarrow> if m = [] then js ''image/png'' else m) @
                 js '';base64,'' @ d)"
  using assms
  by (induction front) (auto simp: carriesInlineData_def truthy_def split: option.splits)

lemma lifestyle_sent:
  assumes "sent (generateLifestyleImage e ai img name desc edit) = [request]"
  shows "generateLifestyleImage e ai img name desc edit =
     (case imageAttempt ai request of
        Inr uri \<Rightarrow> \<lparr>returned = Inr uri, sent = [request], console = []\<rparr>
      | Inl x \<Rightarrow>
          \<lparr>returned = Inl (Error (js ''Failed to generate lifestyle image.'')),
           sent = [request],
           console = [(js ''Gemini Image Gen Error:'', x)]\<rparr>)"
proof (cases "optionalImagePart img")
  case (Inl x)
  with assms show ?thesis
    by (simp add: generateLifestyleImage_def throw_def Let_def split: if_splits)
next
  case (Inr ps)
  with assms show ?thesis
    by (auto simp: generateLifestyleImage_def throw_def Let_def split: if_splits sum.splits)
qed

text \<open>
  C3, amended: once the image request has been sent, a response whose first
  candidate has no part with non-empty inline data makes the operation raise the
  same generic error as a failure of the service does; the error
  \<open>No image generated by the model.\<close> is thrown inside the \<open>try\<close> block, so it
  reaches the console only. When some part of the first candidate carries inline
  data, the operation returns the first such part as a data URI, with its media
  type or \<open>image/png\<close> when that is missing or empty.
\<close>

theorem image_response_handling:
  assumes "sent (generateLifestyleImage e ai img name desc edit) = [request]"
  shows
    "(\<forall>x. ai request = Inl x \<longrightarrow>
        returned (generateLifestyleImage e ai img name desc edit) =
          Inl (Error (js ''Failed to generate lifestyle image.''))) \<and>
     (\<forall>response.
        ai request = Inr response \<and> (\<forall>p\<in>set (scannedParts response). \<not> carriesInlineData p) \<longrightarrow>
        returned (generateLifestyleImage e ai img name desc edit) =
          Inl (Error (js ''Failed to generate lifestyle image.'')) \<and>
        console (generateLifestyleImage e ai img name desc edit) =
          [(js ''Gemini Image Gen Error:'', Error (js ''No image generated by the model.''))]) \<and>
     (\<forall>response front p rest b d.
        ai request = Inr response \<and> scannedParts response = front @ p # rest \<and>
        (\<forall>q\<in>set front. \<not> carriesInlineData q) \<and>
        inlineData p = Some b \<and> blob.data b = Some d \<and> d \<noteq> [] \<longrightarrow>
        returned (generateLifestyleImage e ai img name desc edit) =
          Inr (js ''data:'' @
               (case mimeType b of
                  None \<Rightarrow> js ''image/png''
                | Some m \<Rightarrow> if m = [] then js ''image/png'' else m) @
               js '';base64,'' @ d))"
proof (intro conjI allI impI)
  fix x assume "ai request = Inl x"
  then have "imageAttempt ai request = Inl x" by (simp add: imageAttempt_def)
  then show "returned (generateLifestyleImage e ai img name desc edit) =
          Inl (Error (js ''Failed to generate lifestyle image.''))"
    by (simp add: lifestyle_sent [OF assms])
next
  fix response
  assume h: "ai request = Inr response \<and> (\<forall>p\<in>set (scannedParts response). \<not> carriesInlineData p)"
  then have "findImage (scannedParts response) = None" by (simp add: findImage_None)
  with h have a: "imageAttempt ai request = Inl (Error (js ''No image generated by the model.''))"
    by (simp add: imageAttempt_def)
  show "returned (generateLifestyleImage e ai img name desc edit) =
          Inl (Error (js ''Failed to generate lifestyle image.''))"
    by (simp add: lifestyle_sent [OF assms] a)
  show "console (generateLifestyleImage e ai img name desc edit) =
          [(js ''Gemini Image Gen Error:'', Error (js ''No image generated by the model.''))]"
    by (simp add: lifestyle_sent [OF assms] a)
next
  fix response front p rest b d
  assume h: "ai request = Inr response \<and> scannedParts response = front @ p # rest \<and>
        (\<forall>q\<in>set front. \<not> carriesInlineData q) \<and>
        inlineData p = Some b \<and> blob.data b = Some d \<and> d \<noteq> []"
  then have "findImage (scannedParts response) =
           Some (js ''data:'' @
                 (case mimeType b of
                    None \<Rightarrow> js ''image/png''
                  | Some m \<Rightarrow> if m = [] then js ''image/png'' else m) @
                 js '';base64,'' @ d)"
    using findImage_first [of front p b d rest] by simp
  with h have "imageAttempt ai request = Inr (js ''data:'' @
                 (case mimeType b of
                    None \<Rightarrow> js ''image/png''
                  | Some m \<Rightarrow> if m = [] then js ''image/png'' else m) @
                 js '';base64,'' @ d)"
    by (simp add: imageAttempt_def)
  then show "returned (generateLifestyleImage e ai img name desc edit) =
          Inr (js ''data:'' @
               (case mimeType b of
                  None \<Rightarrow> js ''image/png''
                | Some m \<Rightarrow> if m = [] then js ''image/png'' else m) @
               js '';base64,'' @ d)"
    by (simp add: lifestyle_sent [OF assms])
qed

lemma generic_ne_noimage:
  "js ''Failed to generate lifestyle image.'' \<noteq> js ''No image generated by the model.''"
  by (simp add: js_def ch_def)

text \<open>
  C3, as the specification states it, fails: a response without any inline data
  gives the caller the very error that an unreachable service gives, and not the
  error \<open>No image generated by the model.\<close>
\<close>

theorem no_image_error_counterexample:
  "returned (generateLifestyleImage configured (answeringParts []) None (js ''Blue Kaftan'') (js ''Soft.'') []) =
     returned (generateLifestyleImage configured offline None (js ''Blue Kaftan'') (js ''Soft.'') []) \<and>
   returned (generateLifestyleImage configured (answeringParts []) None (js ''Blue Kaftan'') (js ''Soft.'') []) \<noteq>
     Inl (Error (js ''No image generated by the model.''))"
  by (simp add: generateLifestyleImage_def configured_def truthy_def answeringParts_def offline_def
      imageAttempt_def scannedParts_def optionalImagePart_def Let_def generic_ne_noimage)

theorem image_response_handling_witness:
  "sent (generateLifestyleImage configured (answeringParts imageAnswer) None (js ''Blue Kaftan'') (js ''Soft.'') []) =
     [hd (sent (generateLifestyleImage configured (answeringParts imageAnswer) None (js ''Blue Kaftan'') (js ''Soft.'') []))] \<and>
   returned (generateLifestyleImage configured (answeringParts imageAnswer) None (js ''Blue Kaftan'') (js ''Soft.'') []) =
     Inr (js ''data:'' @ js ''image/png'' @ js '';base64,'' @ js ''AAAA'') \<and>
   returned (generateLifestyleImage configured offline None (js ''Blue Kaftan'') (js ''Soft.'') []) =
     Inl (Error (js ''Failed to generate lifestyle image.'')) \<and>
   returned (generateLifestyleImage configured (answeringParts []) None (js ''Blue Kaftan'') (js ''Soft.'') []) =
     Inl (Error (js ''Failed to generate lifestyle image.'')) \<and>
   console (generateLifestyleImage configured (answeringParts []) None (js ''Blue Kaftan'') (js ''Soft.'') []) =
     [(js ''Gemini Image Gen Error:'', Error (js ''No image generated by the model.''))]"
proof -
  let ?out = "generateLifestyleImage configured (answeringParts imageAnswer) None (js ''Blue Kaftan'') (js ''Soft.'') []"
  let ?off = "generateLifestyleImage configured offline None (js ''Blue Kaftan'') (js ''Soft.'') []"
  let ?none = "generateLifestyleImage configured (answeringParts []) None (js ''Blue Kaftan'') (js ''Soft.'') []"
  let ?response = "\<lparr>responseText = None,
                  candidates = Some [\<lparr>candidateContent = Some \<lparr>parts = Some imageAnswer\<rparr>\<rparr>]\<rparr>"
  let ?empty = "\<lparr>responseText = None,
                  candidates = Some [\<lparr>candidateContent = Some \<lparr>parts = Some []\<rparr>\<rparr>]\<rparr>"
  let ?b = "\<lparr>blob.data = Some (js ''AAAA''), mimeType = None\<rparr>"
  let ?p = "\<lparr>partText = None, inlineData = Some ?b\<rparr>"
  let ?front = "[\<lparr>partText = Some (js ''Here you go''), inlineData = None\<rparr>]"
  have s: "sent ?out = [hd (sent ?out)]"
    by (simp add: generateLifestyleImage_def configured_def truthy_def Let_def optionalImagePart_def
        split: sum.splits)
  have h: "answeringParts imageAnswer (hd (sent ?out)) = Inr ?response \<and>
           scannedParts ?response = ?front @ ?p # [] \<and>
           (\<forall>q\<in>set ?front. \<not> carriesInlineData q) \<and>
           inlineData ?p = Some ?b \<and> blob.data ?b = Some (js ''AAAA'') \<and> js ''AAAA'' \<noteq> []"
    by (simp add: answeringParts_def scannedParts_def imageAnswer_def carriesInlineData_def)
  from image_response_handling [OF s] have "\<forall>response front p rest b d.
        answeringParts imageAnswer (hd (sent ?out)) = Inr response \<and>
        scannedParts response = front @ p # rest \<and>
        (\<forall>q\<in>set front. \<not> carriesInlineData q) \<and>
        inlineData p = Some b \<and> blob.data b = Some d \<and> d \<noteq> [] \<longrightarrow>
        returned ?out =
          Inr (js ''data:'' @
               (case mimeType b of
                  None \<Rightarrow> js ''image/png''
                | Some m \<Rightarrow> if m = [] then js ''image/png'' else m) @
               js '';base64,'' @ d)"
    by (elim conjE)
  from this [rule_format, OF h] have 1: "returned ?out =
          Inr (js ''data:'' @ js ''image/png'' @ js '';base64,'' @ js ''AAAA'')"
    by simp
  have so: "sent ?off = [hd (sent ?off)]"
    by (simp add: generateLifestyleImage_def configured_def truthy_def Let_def optionalImagePart_def
        split: sum.splits)
  have ho: "offline (hd (sent ?off)) = Inl (Error (js ''fetch failed''))"
    by (simp add: offline_def)
  from image_response_handling [OF so] ho
  have 2: "returned ?off = Inl (Error (js ''Failed to generate lifestyle image.''))"
    by blast
  have sn: "sent ?none = [hd (sent ?none)]"
    by (simp add: generateLifestyleImage_def configured_def truthy_def Let_def optionalImagePart_def
        split: sum.splits)
  have hn: "answeringParts [] (hd (sent ?none)) = Inr ?empty \<and>
            (\<forall>p\<in>set (scannedParts ?empty). \<not> carriesInlineData p)"
    by (simp add: answeringParts_def scannedParts_def)
  from image_response_handling [OF sn] hn
  have 3: "returned ?none = Inl (Error (js ''Failed to generate lifestyle image.'')) \<and>
           console ?none =
             [(js ''Gemini Image Gen Error:'', Error (js ''No image generated by the model.''))]"
    by blast
  from s 1 2 3 show ?thesis by simp
qed

text \<open>
  C5: when image generation is called with a non-empty edit instruction, every
  request it sends ends with one text part, the only part with text, and that text
  is, letter for letter, the lifestyle-photo prompt around the product name and
  the description, then \<open>IMPORTANT EDIT INSTRUCTION:\<close> with the instruction and
  the order to modify the image to follow it, then the sentence about the input
  image when there is one: the instruction occurs in it literally. A request is
  sent whenever the credential is present and the image, if any, can be read.
\<close>

theorem edit_instruction_in_prompt:
  assumes \<open>edit \<noteq> []\<close>
  shows
    \<open>(\<forall>request\<in>set (sent (generateLifestyleImage e ai img name desc edit)).
        \<exists>imageParts promptText.
          contents request = imageParts @ [\<lparr>partText = Some promptText, inlineData = None\<rparr>] \<and>
          (\<forall>p\<in>set imageParts. partText p = None) \<and>
          promptText =
            js ''Create a high-quality, professional Instagram lifestyle photography shot for the product "'' @
            name @ js ''". '' @ [0x0A] @
            js ''  Context/Description: '' @ desc @ js ''. '' @ [0x0A] @
            js ''  The image should be aesthetically pleasing, bright, and suitable for social media marketing. '' @
            [0x0A] @ js ''  Aspect Ratio 1:1.'' @
            [0x0A, 0x0A] @ js ''IMPORTANT EDIT INSTRUCTION: '' @ edit @
            js ''. Modify the image to strictly follow this instruction (e.g., change color, background, or setting).'' @
            (if img = None then []
             else js '' preserve the key visual details of the product in the input image but place it in a better background/setting.'') \<and>
          sublist edit promptText) \<and>
     (truthy (API_KEY e) \<and> (\<forall>f. img = Some f \<longrightarrow> dataURL f \<noteq> None) \<longrightarrow>
        length (sent (generateLifestyleImage e ai img name desc edit)) = 1)\<close>
proof (intro conjI ballI impI)
  let ?head = \<open>js ''Create a high-quality, professional Instagram lifestyle photography shot for the product "'' @
            name @ js ''". '' @ [0x0A] @
            js ''  Context/Description: '' @ desc @ js ''. '' @ [0x0A] @
            js ''  The image should be aesthetically pleasing, bright, and suitable for social media marketing. '' @
            [0x0A] @ js ''  Aspect Ratio 1:1.'' @
            [0x0A, 0x0A] @ js ''IMPORTANT EDIT INSTRUCTION: ''\<close>
  let ?tail = \<open>js ''. Modify the image to strictly follow this instruction (e.g., change color, background, or setting).'' @
            (if img = None then []
             else js '' preserve the key visual details of the product in the input image but place it in a better background/setting.'')\<close>
  fix request
  assume r: \<open>request \<in> set (sent (generateLifestyleImage e ai img name desc edit))\<close>
  show \<open>\<exists>imageParts promptText.
          contents request = imageParts @ [\<lparr>partText = Some promptText, inlineData = None\<rparr>] \<and>
          (\<forall>p\<in>set imageParts. partText p = None) \<and>
          promptText =
            js ''Create a high-quality, professional Instagram lifestyle photography shot for the product "'' @
            name @ js ''". '' @ [0x0A] @
            js ''  Context/Description: '' @ desc @ js ''. '' @ [0x0A] @
            js ''  The image should be aesthetically pleasing, bright, and suitable for social media marketing. '' @
            [0x0A] @ js ''  Aspect Ratio 1:1.'' @
            [0x0A, 0x0A] @ js ''IMPORTANT EDIT INSTRUCTION: '' @ edit @
            js ''. Modify the image to strictly follow this instruction (e.g., change color, background, or setting).'' @
            (if img = None then []
             else js '' preserve the key visual details of the product in the input image but place it in a better background/setting.'') \<and>
          sublist edit promptText\<close>
  proof (cases "optionalImagePart img")
    case (Inl x)
    with r show ?thesis
      by (simp add: generateLifestyleImage_def throw_def Let_def split: if_splits)
  next
    case (Inr ps)
    from r Inr assms have c: \<open>contents request =
            ps @ [\<lparr>partText = Some (?head @ edit @ ?tail), inlineData = None\<rparr>]\<close>
      by (auto simp: generateLifestyleImage_def throw_def Let_def lifestylePrompt_def
          editDirective_def preserveDirective_def split: if_splits sum.splits)
    have \<open>sublist edit (?head @ edit @ ?tail)\<close>
      unfolding sublist_def by blast
    with c optionalImagePart_text [OF Inr] show ?thesis
      by (intro exI [of _ ps] exI [of _ \<open>?head @ edit @ ?tail\<close>]) simp
  qed
next
  assume \<open>truthy (API_KEY e) \<and> (\<forall>f. img = Some f \<longrightarrow> dataURL f \<noteq> None)\<close>
  then obtain ps where \<open>truthy (API_KEY e)\<close> \<open>optionalImagePart img = Inr ps\<close>
    using optionalImagePart_readable by blast
  then show \<open>length (sent (generateLifestyleImage e ai img name desc edit)) = 1\<close>
    by (simp add: generateLifestyleImage_def Let_def split: sum.splits)
qed

theorem edit_instruction_in_prompt_witness:
  \<open>js ''make it red'' \<noteq> [] \<and>
   truthy (API_KEY configured) \<and>
   (\<exists>request imageParts.
      sent (generateLifestyleImage configured offline None (js ''Blue Kaftan'') (js ''Soft.'')
              (js ''make it red'')) = [request] \<and>
      contents request =
        imageParts @
        [\<lparr>partText = Some
            (js ''Create a high-quality, professional Instagram lifestyle photography shot for the product "'' @
             js ''Blue Kaftan'' @ js ''". '' @ [0x0A] @
             js ''  Context/Description: '' @ js ''Soft.'' @ js ''. '' @ [0x0A] @
             js ''  The image should be aesthetically pleasing, bright, and suitable for social media marketing. '' @
             [0x0A] @ js ''  Aspect Ratio 1:1.'' @
             [0x0A, 0x0A] @ js ''IMPORTANT EDIT INSTRUCTION: '' @ js ''make it red'' @
             js ''. Modify the image to strictly follow this instruction (e.g., change color, background, or setting).''),
          inlineData = None\<rparr>])\<close>
proof -
  let ?out = \<open>generateLifestyleImage configured offline None (js ''Blue Kaftan'') (js ''Soft.'')
                (js ''make it red'')\<close>
  have ne: \<open>js ''make it red'' \<noteq> []\<close> by simp
  have k: \<open>truthy (API_KEY configured) \<and>
           (\<forall>f. (None :: File option) = Some f \<longrightarrow> dataURL f \<noteq> None)\<close>
    by (simp add: configured_def truthy_def)
  note t = edit_instruction_in_prompt [OF ne, of configured offline None \<open>js ''Blue Kaftan''\<close> \<open>js ''Soft.''\<close>]
  from t k have \<open>length (sent ?out) = 1\<close> by blast
  then obtain request where s: \<open>sent ?out = [request]\<close>
    by (cases \<open>sent ?out\<close>) auto
  with t have \<open>\<exists>imageParts.
      contents request =
        imageParts @
        [\<lparr>partText = Some
            (js ''Create a high-quality, professional Instagram lifestyle photography shot for the product "'' @
             js ''Blue Kaftan'' @ js ''". '' @ [0x0A] @
             js ''  Context/Description: '' @ js ''Soft.'' @ js ''. '' @ [0x0A] @
             js ''  The image should be aesthetically pleasing, bright, and suitable for social media marketing. '' @
             [0x0A] @ js ''  Aspect Ratio 1:1.'' @
             [0x0A, 0x0A] @ js ''IMPORTANT EDIT INSTRUCTION: '' @ js ''make it red'' @
             js ''. Modify the image to strictly follow this instruction (e.g., change color, background, or setting).''),
          inlineData = None\<rparr>]\<close>
    by auto
  with s ne k show ?thesis by blast
qed

section \<open>Properties of the application\<close>

text \<open>
  C10: when the listing is present and the image-generation operation raises, the
  updates that \<open>handleGenerateImage\<close> makes turn any state into the same state
  with the in-flight flag reset: the last generated image and the listing are
  unchanged.
\<close>

theorem failed_image_generation_keeps_state:
  assumes "data st = Some listing"
    and "returned (generateLifestyleImage e ai (selectedImage st) (productName listing)
           (shortDescription listing) edit) = Inl x"
  shows "applyUpdates (updates (handleGenerateImage e ai st edit)) prev =
           prev\<lparr>isGeneratingImage := False\<rparr> \<and>
         marketingImageUrl (applyUpdates (updates (handleGenerateImage e ai st edit)) prev) =
           marketingImageUrl prev \<and>
         data (applyUpdates (updates (handleGenerateImage e ai st edit)) prev) = data prev \<and>
         isGeneratingImage (applyUpdates (updates (handleGenerateImage e ai st edit)) prev) = False"
  using assms by (simp add: handleGenerateImage_def applyUpdates_def Let_def)

theorem failed_image_generation_keeps_state_witness:
  "data sampleState = Some kaftan \<and>
   returned (generateLifestyleImage configured offline (selectedImage sampleState)
      (productName kaftan) (shortDescription kaftan) (js ''make it red'')) =
     Inl (Error (js ''Failed to generate lifestyle image.'')) \<and>
   applyUpdates (updates (handleGenerateImage configured offline sampleState (js ''make it red''))) sampleState =
     sampleState\<lparr>isGeneratingImage := False\<rparr> \<and>
   marketingImageUrl (applyUpdates (updates (handleGenerateImage configured offline sampleState (js ''make it red''))) sampleState) =
     marketingImageUrl sampleState"
proof -
  have d: "data sampleState = Some kaftan" by (simp add: sampleState_def)
  have r: "returned (generateLifestyleImage configured offline (selectedImage sampleState)
      (productName kaftan) (shortDescription kaftan) (js ''make it red'')) =
     Inl (Error (js ''Failed to generate lifestyle image.''))"
    by (simp add: generateLifestyleImage_def configured_def truthy_def Let_def optionalImagePart_def
        sampleState_def imageAttempt_def offline_def)
  from failed_image_generation_keeps_state [OF d r, of sampleState] d r show ?thesis by simp
qed

lemma trim_space: "trim (js '' '') = []"
  by (simp add: trim_def isWhiteSpace_def js_def ch_def)

lemma trim_nonempty: "trim s \<noteq> [] \<Longrightarrow> s \<noteq> []"
  by (auto simp: trim_def)

lemma validation_ne_failed:
  "js ''Failed to generate content. Please try again.'' \<noteq>
   js ''Please provide an image or text description.''"
  by (simp add: js_def ch_def)

lemma optionalImagePart_rejection:
  "optionalImagePart i = Inl y \<Longrightarrow> y = ProgressEvent"
  by (auto simp: optionalImagePart_def fileToGenerativePart_def Let_def
      split: option.splits sum.splits)

lemma service_gate:
  assumes "truthy (API_KEY e)" and "\<not> (i = None \<and> h = [])"
  shows "returned (generateProductContent e ai i h) \<noteq>
          Inl (Error (js ''Please provide an image or text description.''))"
proof (cases "optionalImagePart i")
  case (Inl y)
  with optionalImagePart_rejection [OF Inl] assms show ?thesis
    by (simp add: generateProductContent_def throw_def Let_def)
next
  case (Inr ps)
  show ?thesis
  proof (cases "contentAttempt ai \<lparr>model = js ''gemini-2.5-flash'',
           contents = \<lparr>partText = Some (contentPrompt h), inlineData = None\<rparr> # ps,
           config = contentConfig\<rparr>")
    case (Inl x)
    with Inr assms show ?thesis
      using validation_ne_failed by (simp add: generateProductContent_def throw_def Let_def)
  next
    case (Inr v)
    with \<open>optionalImagePart i = Inr ps\<close> assms show ?thesis
      by (simp add: generateProductContent_def throw_def Let_def)
  qed
qed

text \<open>
  C9: with the credential present, content generation called with no image and
  the text of one space does not raise the input-validation error and sends one
  request, whereas \<open>handleGenerate\<close>, which trims the text first, stops such a
  state with its own message and sends nothing; and every input that passes the
  test of \<open>handleGenerate\<close> passes the test of the service.
\<close>

theorem service_gate_weaker_than_ui_gate:
  assumes "truthy (API_KEY e)"
  shows
    "returned (generateProductContent e ai None (js '' '')) \<noteq>
       Inl (Error (js ''Please provide an image or text description.'')) \<and>
     length (sent (generateProductContent e ai None (js '' ''))) = 1 \<and>
     (selectedImage st = None \<and> textInput st = js '' '' \<longrightarrow>
        requests (handleGenerate e ai st) = [] \<and>
        applyUpdates (updates (handleGenerate e ai st)) prev =
          prev\<lparr>error := Some (js ''Please upload an image or enter a description first.'')\<rparr>) \<and>
     (\<not> (img = None \<and> trim hint = []) \<longrightarrow>
        returned (generateProductContent e ai img hint) \<noteq>
          Inl (Error (js ''Please provide an image or text description.'')))"
proof (intro conjI impI)
  show "returned (generateProductContent e ai None (js '' '')) \<noteq>
       Inl (Error (js ''Please provide an image or text description.''))"
    using assms by (intro service_gate) simp_all
  show "length (sent (generateProductContent e ai None (js '' ''))) = 1"
    using assms
    by (simp add: generateProductContent_def Let_def optionalImagePart_def split: sum.splits)
  show "requests (handleGenerate e ai st) = []"
    if "selectedImage st = None \<and> textInput st = js '' ''"
    using that by (simp add: handleGenerate_def trim_space)
  show "applyUpdates (updates (handleGenerate e ai st)) prev =
          prev\<lparr>error := Some (js ''Please upload an image or enter a description first.'')\<rparr>"
    if "selectedImage st = None \<and> textInput st = js '' ''"
    using that by (simp add: handleGenerate_def trim_space applyUpdates_def)
  show "returned (generateProductContent e ai img hint) \<noteq>
          Inl (Error (js ''Please provide an image or text description.''))"
    if "\<not> (img = None \<and> trim hint = [])"
  proof (rule service_gate [OF assms])
    from that show "\<not> (img = None \<and> hint = [])" using trim_nonempty by blast
  qed
qed

lemma trim_blue_kaftan: "trim (js ''blue kaftan'') \<noteq> []"
  by (simp add: trim_def isWhiteSpace_def js_def ch_def)

theorem service_gate_weaker_than_ui_gate_witness:
  "truthy (API_KEY configured) \<and>
   returned (generateProductContent configured offline None (js '' '')) \<noteq>
     Inl (Error (js ''Please provide an image or text description.'')) \<and>
   length (sent (generateProductContent configured offline None (js '' ''))) = 1 \<and>
   selectedImage blankState = None \<and> textInput blankState = js '' '' \<and>
   requests (handleGenerate configured offline blankState) = [] \<and>
   \<not> ((None :: File option) = None \<and> trim (js ''blue kaftan'') = []) \<and>
   returned (generateProductContent configured offline None (js ''blue kaftan'')) \<noteq>
     Inl (Error (js ''Please provide an image or text description.''))"
proof -
  have k: "truthy (API_KEY configured)" by (simp add: configured_def truthy_def)
  have b: "selectedImage blankState = None \<and> textInput blankState = js '' ''"
    by (simp add: blankState_def)
  have f: "\<not> ((None :: File option) = None \<and> trim (js ''blue kaftan'') = [])"
    using trim_blue_kaftan by simp
  from service_gate_weaker_than_ui_gate
         [OF k, of offline blankState blankState None "js ''blue kaftan''"] k b f
  show ?thesis by blast
qed

section \<open>Properties of the compositing\<close>

lemma Fin_le [simp]: "Fin a \<le> Fin b \<longleftrightarrow> a \<le> b"
  by (auto simp: less_eq_jsnum_def)

lemma Math_max_Fin [simp]: "Math_max (Fin a) (Fin b) = Fin (max a b)"
  by (simp add: Math_max_def max_def)

lemma pillWidths_drawPriceTag:
  "pillWidths (drawPriceTag b w h price) =
     [Fin (measureText b (priceFont w) price) +
      Math_max (Fin 20) (Fin (real w) * Fin 0.05) * Fin 0.6 * Fin 2]"
  by (simp add: drawPriceTag_def Let_def)

lemma pillWidths_append: "pillWidths (xs @ ys) = pillWidths xs @ pillWidths ys"
  by (induction xs rule: pillWidths.induct) simp_all

lemma drawLogo_result:
  assumes "drawLogo b l s x y = (cs, r)"
  shows "pillWidths cs = [] \<and> (r = None \<longleftrightarrow> loadImage b l = None \<and> drawImageRejectsBroken b)"
  using assms by (auto simp: drawLogo_def Let_def split: prod.splits if_splits)

lemma pillWidths_drawBusinessName: "pillWidths (drawBusinessName n s x y) = []"
  by (simp add: drawBusinessName_def Let_def)

lemma handleDownload_loaded:
  assumes "u \<noteq> []" and "loadImage b u = Some (w, h)" and "has2dContext b"
  shows "\<exists>c. handleDownload b listing (Some u) logo name price = Some c \<and>
           canvasWidth c = w \<and> canvasHeight c = h \<and>
           (if logoAborts b logo
            then downloaded c = None \<and> pillWidths (calls c) = []
            else (\<exists>dl. downloaded c = Some dl \<and> pngWidth dl = w \<and> pngHeight dl = h \<and>
                        pngCalls dl = calls c) \<and>
                 pillWidths (calls c) =
                   [Fin (measureText b (priceFont w) price) +
                    Math_max (Fin 20) (Fin (real w) * Fin 0.05) * Fin 0.6 * Fin 2])"
proof (cases "\<exists>l. logo = Some l \<and> l \<noteq> []")
  case False
  with assms show ?thesis
    by (auto simp: handleDownload_def Let_def logoAborts_def pillWidths_append
        pillWidths_drawPriceTag pillWidths_drawBusinessName split: option.splits)
next
  case True
  then obtain l where l: "logo = Some l" "l \<noteq> []" by blast
  obtain cs r where d: "drawLogo b l (Fin (real w) / Fin 1000) (Fin 40 * (Fin (real w) / Fin 1000))
      (Fin 40 * (Fin (real w) / Fin 1000)) = (cs, r)"
    by (cases "drawLogo b l (Fin (real w) / Fin 1000) (Fin 40 * (Fin (real w) / Fin 1000))
      (Fin 40 * (Fin (real w) / Fin 1000))") blast
  note f = drawLogo_result [OF d]
  show ?thesis
  proof (cases r)
    case None
    with f l assms d show ?thesis
      by (simp add: handleDownload_def Let_def logoAborts_def pillWidths_append)
  next
    case (Some y)
    with f l assms d show ?thesis
      by (simp add: handleDownload_def Let_def logoAborts_def pillWidths_append
          pillWidths_drawPriceTag pillWidths_drawBusinessName)
  qed
qed

text \<open>
  C7: when the base image loads with natural size \<open>w\<close> by \<open>h\<close>, the canvas is
  sized \<open>w\<close> by \<open>h\<close> and so is the raster of any download, whatever the logo, the
  business name and the price are; the download is made whenever the canvas gives
  a 2D context and the handler does not stop at the logo.
\<close>

theorem output_raster_matches_base_image:
  assumes "u \<noteq> []" and "loadImage b u = Some (w, h)"
  shows "\<exists>c. handleDownload b listing (Some u) logo name price = Some c \<and>
           canvasWidth c = w \<and> canvasHeight c = h \<and>
           (\<forall>dl. downloaded c = Some dl \<longrightarrow> pngWidth dl = w \<and> pngHeight dl = h) \<and>
           (has2dContext b \<and> \<not> logoAborts b logo \<longrightarrow> downloaded c \<noteq> None)"
proof (cases "has2dContext b")
  case True
  from handleDownload_loaded [OF assms True, of listing logo name price]
  show ?thesis by (auto split: if_splits)
next
  case False
  with assms show ?thesis by (simp add: handleDownload_def)
qed

theorem output_raster_matches_base_image_witness:
  "js ''data:image/png;base64,AAAA'' \<noteq> [] \<and>
   loadImage sampleBrowser (js ''data:image/png;base64,AAAA'') = Some (1000, 1000) \<and>
   has2dContext sampleBrowser \<and> \<not> logoAborts sampleBrowser None \<and>
   (\<exists>c dl. handleDownload sampleBrowser kaftan (Some (js ''data:image/png;base64,AAAA'')) None []
           (js ''N5,000'') = Some c \<and>
        canvasWidth c = 1000 \<and> canvasHeight c = 1000 \<and>
        downloaded c = Some dl \<and> pngWidth dl = 1000 \<and> pngHeight dl = 1000)"
proof -
  have u: "js ''data:image/png;base64,AAAA'' \<noteq> []" by simp
  have l: "loadImage sampleBrowser (js ''data:image/png;base64,AAAA'') = Some (1000, 1000)"
    by (simp add: sampleBrowser_def)
  have c: "has2dContext sampleBrowser \<and> \<not> logoAborts sampleBrowser None"
    by (simp add: sampleBrowser_def logoAborts_def)
  from output_raster_matches_base_image [OF u l, of kaftan None "[]" "js ''N5,000''"] u l c
  show ?thesis by fastforce
qed

text \<open>
  C8: for one base image, one browser, one logo and business name, and any two
  price texts of which the first measures no wider than the second, the
  rectangles drawn behind the price are pairwise no wider for the first text than
  for the second; unless the handler stops at the logo, each composition draws
  exactly one, of width the measured width of the text plus twice the padding.
\<close>

theorem pill_width_monotone:
  assumes "u \<noteq> []" and "loadImage b u = Some (w, h)" and "has2dContext b"
    and "measureText b (priceFont w) p1 \<le> measureText b (priceFont w) p2"
  shows "\<exists>c1 c2.
           handleDownload b listing (Some u) logo name p1 = Some c1 \<and>
           handleDownload b listing (Some u) logo name p2 = Some c2 \<and>
           list_all2 (\<le>) (pillWidths (calls c1)) (pillWidths (calls c2)) \<and>
           (\<not> logoAborts b logo \<longrightarrow>
              pillWidths (calls c1) =
                [Fin (measureText b (priceFont w) p1) +
                 Math_max (Fin 20) (Fin (real w) * Fin 0.05) * Fin 0.6 * Fin 2] \<and>
              pillWidths (calls c2) =
                [Fin (measureText b (priceFont w) p2) +
                 Math_max (Fin 20) (Fin (real w) * Fin 0.05) * Fin 0.6 * Fin 2])"
proof -
  from handleDownload_loaded [OF assms(1-3), of listing logo name p1]
  obtain c1 where 1: "handleDownload b listing (Some u) logo name p1 = Some c1"
    "if logoAborts b logo then pillWidths (calls c1) = []
     else pillWidths (calls c1) =
       [Fin (measureText b (priceFont w) p1) +
        Math_max (Fin 20) (Fin (real w) * Fin 0.05) * Fin 0.6 * Fin 2]"
    by (auto split: if_splits)
  from handleDownload_loaded [OF assms(1-3), of listing logo name p2]
  obtain c2 where 2: "handleDownload b listing (Some u) logo name p2 = Some c2"
    "if logoAborts b logo then pillWidths (calls c2) = []
     else pillWidths (calls c2) =
       [Fin (measureText b (priceFont w) p2) +
        Math_max (Fin 20) (Fin (real w) * Fin 0.05) * Fin 0.6 * Fin 2]"
    by (auto split: if_splits)
  have "Fin (measureText b (priceFont w) p1) +
          Math_max (Fin 20) (Fin (real w) * Fin 0.05) * Fin 0.6 * Fin 2 \<le>
        Fin (measureText b (priceFont w) p2) +
          Math_max (Fin 20) (Fin (real w) * Fin 0.05) * Fin 0.6 * Fin 2"
    using assms(4) by simp
  with 1(2) 2(2) have "list_all2 (\<le>) (pillWidths (calls c1)) (pillWidths (calls c2)) \<and>
           (\<not> logoAborts b logo \<longrightarrow>
              pillWidths (calls c1) =
                [Fin (measureText b (priceFont w) p1) +
                 Math_max (Fin 20) (Fin (real w) * Fin 0.05) * Fin 0.6 * Fin 2] \<and>
              pillWidths (calls c2) =
                [Fin (measureText b (priceFont w) p2) +
                 Math_max (Fin 20) (Fin (real w) * Fin 0.05) * Fin 0.6 * Fin 2])"
    by (cases "logoAborts b logo") simp_all
  with 1(1) 2(1) show ?thesis by blast
qed

theorem pill_width_monotone_witness:
  "js ''data:image/png;base64,AAAA'' \<noteq> [] \<and>
   loadImage sampleBrowser (js ''data:image/png;base64,AAAA'') = Some (1000, 1000) \<and>
   has2dContext sampleBrowser \<and>
   measureText sampleBrowser (priceFont 1000) (js ''N500'') \<le>
     measureText sampleBrowser (priceFont 1000) (js ''N15,000'') \<and>
   \<not> logoAborts sampleBrowser None \<and>
   (\<exists>c1 c2.
      handleDownload sampleBrowser kaftan (Some (js ''data:image/png;base64,AAAA'')) None []
        (js ''N500'') = Some c1 \<and>
      handleDownload sampleBrowser kaftan (Some (js ''data:image/png;base64,AAAA'')) None []
        (js ''N15,000'') = Some c2 \<and>
      pillWidths (calls c1) = [Fin 100] \<and> pillWidths (calls c2) = [Fin 130])"
proof -
  have u: "js ''data:image/png;base64,AAAA'' \<noteq> []" by simp
  have l: "loadImage sampleBrowser (js ''data:image/png;base64,AAAA'') = Some (1000, 1000)"
    by (simp add: sampleBrowser_def)
  have c: "has2dContext sampleBrowser" by (simp add: sampleBrowser_def)
  have a: "\<not> logoAborts sampleBrowser None" by (simp add: logoAborts_def)
  have m1: "measureText sampleBrowser (priceFont 1000) (js ''N500'') = 40"
    by (simp add: sampleBrowser_def js_def)
  have m2: "measureText sampleBrowser (priceFont 1000) (js ''N15,000'') = 70"
    by (simp add: sampleBrowser_def js_def)
  have m: "measureText sampleBrowser (priceFont 1000) (js ''N500'') \<le>
     measureText sampleBrowser (priceFont 1000) (js ''N15,000'')"
    by (simp add: m1 m2)
  from pill_width_monotone [OF u l c m, of kaftan None "[]"] a
  obtain c1 c2 where
    "handleDownload sampleBrowser kaftan (Some (js ''data:image/png;base64,AAAA'')) None []
        (js ''N500'') = Some c1"
    "handleDownload sampleBrowser kaftan (Some (js ''data:image/png;base64,AAAA'')) None []
        (js ''N15,000'') = Some c2"
    "pillWidths (calls c1) =
       [Fin (measureText sampleBrowser (priceFont 1000) (js ''N500'')) +
        Math_max (Fin 20) (Fin (real (1000::nat)) * Fin 0.05) * Fin 0.6 * Fin 2]"
    "pillWidths (calls c2) =
       [Fin (measureText sampleBrowser (priceFont 1000) (js ''N15,000'')) +
        Math_max (Fin 20) (Fin (real (1000::nat)) * Fin 0.05) * Fin 0.6 * Fin 2]"
    by blast
  then have "handleDownload sampleBrowser kaftan (Some (js ''data:image/png;base64,AAAA'')) None []
        (js ''N500'') = Some c1 \<and>
      handleDownload sampleBrowser kaftan (Some (js ''data:image/png;base64,AAAA'')) None []
        (js ''N15,000'') = Some c2 \<and>
      pillWidths (calls c1) = [Fin 100] \<and> pillWidths (calls c2) = [Fin 130]"
    by (simp add: m1 m2)
  with u l c m a show ?thesis by blast
qed

text \<open>
  A logo that fails to load has width and height \<open>0\<close>, so the aspect ratio is
  \<open>0 / 0\<close>: the height of the logo and then \<open>brandingY\<close> are \<open>NaN\<close>, and the
  business name is drawn at a \<open>NaN\<close> ordinate. Where \<open>drawImage\<close> throws for such
  an image, the handler stops there instead.
\<close>

lemma failed_logo_gives_NaN:
  assumes "u \<noteq> []" and "loadImage b u = Some (w, h)" and "has2dContext b"
    and "l \<noteq> []" and "loadImage b l = None" and "name \<noteq> []"
  shows "\<exists>c. handleDownload b listing (Some u) (Some l) name price = Some c \<and>
           (if drawImageRejectsBroken b
            then downloaded c = None \<and>
                 calls c =
                   [DrawImage u (Fin 0) (Fin 0), SetShadowColor (js ''rgba(0,0,0,0.5)''),
                    SetShadowBlur (Fin 10 * (Fin (real w) / Fin 1000))]
            else downloaded c \<noteq> None \<and>
                 calls c =
                   [DrawImage u (Fin 0) (Fin 0), SetShadowColor (js ''rgba(0,0,0,0.5)''),
                    SetShadowBlur (Fin 10 * (Fin (real w) / Fin 1000)),
                    DrawImageScaled l (Fin 40 * (Fin (real w) / Fin 1000))
                      (Fin 40 * (Fin (real w) / Fin 1000))
                      (Fin 120 * (Fin (real w) / Fin 1000)) NaN] @
                   drawBusinessName name (Fin (real w) / Fin 1000)
                     (Fin 40 * (Fin (real w) / Fin 1000)) NaN @
                   drawPriceTag b w h price)"
  using assms by (simp add: handleDownload_def Let_def drawLogo_def)

text \<open>
  C4, at a failing input: a base image of 1000 by 1000, a logo that fails to load,
  the business name \<open>Shop\<close>. The handler asks for the name at the ordinate \<open>NaN\<close>,
  a call that draws nothing, though it goes on to the price tag and the download;
  in a browser whose \<open>drawImage\<close> throws for the failed logo, nothing is
  downloaded.
\<close>

theorem failed_logo_drops_business_name:
  "map_option calls
     (handleDownload sampleBrowser kaftan (Some (js ''data:image/png;base64,AAAA''))
        (Some (js ''blob:logo'')) (js ''Shop'') (js ''N5,000'')) =
   Some
     [DrawImage (js ''data:image/png;base64,AAAA'') (Fin 0) (Fin 0),
      SetShadowColor (js ''rgba(0,0,0,0.5)''),
      SetShadowBlur (Fin 10),
      DrawImageScaled (js ''blob:logo'') (Fin 40) (Fin 40) (Fin 120) NaN,
      SetFont (Font (js ''bold'') (Fin 40) (js ''Inter, sans-serif'')),
      SetShadowColor (js ''rgba(0,0,0,0.8)''),
      SetShadowBlur (Fin 8),
      SetFillStyle (js ''white''),
      SetTextAlign (js ''left''),
      SetTextBaseline (js ''top''),
      FillText (js ''Shop'') (Fin 40) NaN,
      SetFont (Font (js ''bold'') (Fin 50) (js ''Inter, sans-serif'')),
      SetShadowColor (js ''rgba(0,0,0,0.3)''),
      SetShadowBlur (Fin 10),
      SetFillStyle (js ''white''),
      RoundRect (Fin 830) (Fin 870) (Fin 120) (Fin 95) (Fin 12),
      Fill,
      SetShadowBlur (Fin 0),
      SetFillStyle (js ''#4f46e5''),
      SetTextAlign (js ''right''),
      SetTextBaseline (js ''bottom''),
      FillText (js ''N5,000'') (Fin 920) (Fin 950)] \<and>
   \<not> takesEffect (FillText (js ''Shop'') (Fin 40) NaN) \<and>
   map_option downloaded
     (handleDownload (sampleBrowser\<lparr>drawImageRejectsBroken := True\<rparr>) kaftan
        (Some (js ''data:image/png;base64,AAAA'')) (Some (js ''blob:logo'')) (js ''Shop'')
        (js ''N5,000'')) = Some None"
proof -
  have l: "loadImage sampleBrowser (js ''blob:logo'') = None"
    by (simp add: sampleBrowser_def js_def ch_def)
  have b: "loadImage sampleBrowser (js ''data:image/png;base64,AAAA'') = Some (1000, 1000)"
    by (simp add: sampleBrowser_def)
  have m: "measureText sampleBrowser f (js ''N5,000'') = 60" for f
    by (simp add: sampleBrowser_def js_def)
  have c: "has2dContext sampleBrowser" "hasRoundRect sampleBrowser"
    "\<not> drawImageRejectsBroken sampleBrowser"
    by (simp_all add: sampleBrowser_def)
  show ?thesis
    by (simp add: handleDownload_def Let_def l b m c drawLogo_def drawBusinessName_def
        drawPriceTag_def priceFont_def minus_jsnum_def)
qed

lemma no_base_image_is_noop: "handleDownload b listing None logo name price = None"
  by (simp add: handleDownload_def)

lemma logo_absent_draws_business_name:
  assumes "u \<noteq> []" and "loadImage b u = Some (w, h)" and "has2dContext b" and "name \<noteq> []"
  shows "\<exists>c. handleDownload b listing (Some u) None name price = Some c \<and>
           FillText name (Fin (real w / 25)) (Fin (real w / 25)) \<in> set (calls c)"
  using assms by (simp add: handleDownload_def Let_def drawBusinessName_def)

end
